theory Spec2Isabelle
  imports Main
begin

section \<open>Shared vocabulary: identifiers, JavaScript arrays and strings, queries\<close>

text \<open>
  Identifiers are the string form of the store's object ids. A JavaScript string is
  modelled as a \<^typ>\<open>string\<close> whose characters are code units below 256.
\<close>

type_synonym oid = string

text \<open>
  \<^verbatim>\<open>Array.prototype.indexOf\<close>: the index of the first element equal to the
  argument, or \<open>-1\<close> when there is none.
\<close>

fun indexOf :: "'a list \<Rightarrow> 'a \<Rightarrow> int" where
  "indexOf [] x = - 1"
| "indexOf (y # ys) x =
     (if y = x then 0
      else (let i = indexOf ys x in if i < 0 then - 1 else i + 1))"

text \<open>
  \<^verbatim>\<open>Array.prototype.splice(start, deleteCount)\<close> with no inserted items, returning
  the array as it is after the call. A negative \<open>start\<close> counts from the end
  (\<open>max (len + start) 0\<close>), a \<open>start\<close> beyond the end is the length, and the
  delete count is clamped to what is left.
\<close>

definition splice_js :: "'a list \<Rightarrow> int \<Rightarrow> int \<Rightarrow> 'a list" where
  "splice_js xs start deleteCount =
     (let len = int (length xs);
          s = (if start < 0 then max (len + start) 0 else min start len);
          d = min (max deleteCount 0) (len - s)
      in take (nat s) xs @ drop (nat (s + d)) xs)"

text \<open>\<^verbatim>\<open>Array.prototype.unshift(x)\<close>: the element is put at the head.\<close>

definition unshift :: "'a list \<Rightarrow> 'a \<Rightarrow> 'a list" where
  "unshift xs x = x # xs"

text \<open>
  A query by id on the store: the id string is first cast to an object id, and a string
  that cannot be cast raises the error whose \<^verbatim>\<open>kind\<close> is \<^verbatim>\<open>'ObjectId'\<close>. Which
  strings can be cast is the store library's business, so the test \<open>castable\<close> is a
  parameter. A collection is keyed by the unique \<^verbatim>\<open>_id\<close> of its documents.
\<close>

datatype query_error = CastError

definition findById :: "(oid \<Rightarrow> bool) \<Rightarrow> (oid \<rightharpoonup> 'd) \<Rightarrow> oid \<Rightarrow> query_error + 'd option" where
  "findById castable coll i = (if castable i then Inr (coll i) else Inl CastError)"


text \<open>
  A field of a request body or a request header is a string or is absent
  (\<^verbatim>\<open>undefined\<close>). Both \<^verbatim>\<open>undefined\<close> and the empty string are falsy, so
  \<^verbatim>\<open>if (field)\<close> is \<open>truthy field\<close> and \<^verbatim>\<open>if (!field)\<close> is its negation.
\<close>

definition truthy :: "string option \<Rightarrow> bool" where
  "truthy v = (case v of None \<Rightarrow> False | Some s \<Rightarrow> s \<noteq> [])"

text \<open>
  The string a validator is run on: the validation library turns an absent field into
  the empty string. A field that passed a non-emptiness or length check is its own
  string form.
\<close>

definition to_str :: "string option \<Rightarrow> string" where
  "to_str v = (case v of None \<Rightarrow> [] | Some s \<Rightarrow> s)"

text \<open>
  \<^verbatim>\<open>String.prototype.split(sep)\<close> for a one-character separator: the segments between
  the separators, in order; a string with no separator is its own single segment.
\<close>

fun split_on :: "char \<Rightarrow> string \<Rightarrow> string list" where
  "split_on sep [] = [[]]"
| "split_on sep (c # cs) =
     (if c = sep then [] # split_on sep cs
      else (case split_on sep cs of
              seg # segs \<Rightarrow> (c # seg) # segs
            | [] \<Rightarrow> [[c]]))"

text \<open>
  \<^verbatim>\<open>String.prototype.trim()\<close>: white space and line terminators are removed from both
  ends. Among the code units below 256 these are tab, line feed, vertical tab, form feed,
  carriage return, space and the no-break space.
\<close>

definition is_space :: "char \<Rightarrow> bool" where
  "is_space c = (c \<in> set [CHR 0x09, CHR 0x0A, CHR 0x0B, CHR 0x0C, CHR 0x0D, CHR 0x20, CHR 0xA0])"

definition trim :: "string \<Rightarrow> string" where
  "trim s = rev (dropWhile is_space (rev (dropWhile is_space s)))"

text \<open>
  \<^verbatim>\<open>findOneAndUpdate\<close> changes, and \<^verbatim>\<open>save\<close> of a document fetched by
  \<^verbatim>\<open>findOne\<close> writes back, the first document of the collection that matches the
  query.
\<close>

fun update_first :: "('a \<Rightarrow> bool) \<Rightarrow> ('a \<Rightarrow> 'a) \<Rightarrow> 'a list \<Rightarrow> 'a list" where
  "update_first P f [] = []"
| "update_first P f (x # xs) = (if P x then f x # xs else x # update_first P f xs)"

section \<open>Data model\<close>

text \<open>
  Modelled from the spec: the User, Profile and Post schemas (models/User, models/Profile
  and models/Post are not among the sources). A user has an identifier, a name, an email,
  an avatar URL and a hashed password. A profile belongs to a user and has optional
  company, website, location, bio, status and github username, a list of skills, the
  social links (each optional) and the lists of experience and education entries, each
  entry with a generated identifier. A like entry is a user reference; a comment has a
  generated identifier, a text, the denormalised author name and avatar and a user
  reference; a post has a text, author name and avatar, the owning user and the two
  lists, both empty on creation.
\<close>

record user =
  user_id :: oid
  user_name :: string
  user_email :: string
  user_avatar :: string
  user_password :: string

record social =
  youtube :: "string option"
  twitter :: "string option"
  facebook :: "string option"
  linkedin :: "string option"
  instagram :: "string option"

record experience =
  exp_id :: oid
  exp_title :: string
  exp_company :: string
  exp_location :: "string option"
  exp_from :: string
  exp_to :: "string option"
  exp_current :: "bool option"
  exp_description :: "string option"

record education =
  edu_id :: oid
  edu_school :: string
  edu_degree :: string
  edu_fieldofstudy :: string
  edu_from :: string
  edu_to :: "string option"
  edu_current :: "bool option"
  edu_description :: "string option"

record profile =
  prof_user :: oid
  prof_company :: "string option"
  prof_website :: "string option"
  prof_location :: "string option"
  prof_bio :: "string option"
  prof_status :: "string option"
  prof_githubusername :: "string option"
  prof_skills :: "string list"
  prof_social :: social
  prof_experience :: "experience list"
  prof_education :: "education list"

record like =
  like_user :: oid

record comment =
  comment_id :: oid
  comment_text :: string
  comment_name :: string
  comment_avatar :: string
  comment_user :: oid

record post =
  post_text :: string
  post_name :: string
  post_avatar :: string
  post_user :: oid
  likes :: "like list"
  comments :: "comment list"

type_synonym posts = "oid \<rightharpoonup> post"


text \<open>
  The users and the profiles are collections in their natural order, queried by a field;
  the posts are queried by \<^verbatim>\<open>_id\<close> only.
\<close>

type_synonym users = "user list"

type_synonym profiles = "profile list"

definition by_id :: "users \<Rightarrow> (oid \<rightharpoonup> user)" where
  "by_id us = map_of (map (\<lambda>u. (user_id u, u)) us)"

section \<open>HTTP responses\<close>

datatype json =
  JPost post
| JLikes "like list"
| JComments "comment list"
| JProfile profile
| JToken string

text \<open>
  \<^verbatim>\<open>res.status(n).json({msg})\<close>, \<^verbatim>\<open>res.status(n).json({errors})\<close> (the messages
  in order), \<^verbatim>\<open>res.status(n).send(text)\<close> and \<^verbatim>\<open>res.json(value)\<close>, whose status
  is 200. \<open>NoResponse\<close> is a request whose handler ended without answering.
\<close>

datatype body =
  Msg string
| Errors "string list"
| Send string
| Json json

datatype response = Response (status: nat) (body: body) | NoResponse

definition server_error :: response where
  "server_error = Response 500 (Send ''Server Error'')"

section \<open>Credential verifier (middleware/auth.js)\<close>

text \<open>
  The payload signed into a token is \<^verbatim>\<open>{user: {id}}\<close>. The request carries the
  header \<^verbatim>\<open>x-auth-token\<close>, a string when the header was sent, and the identity the
  verifier attaches. \<open>verify\<close> is the token library's verification with the configured
  secret: the decoded payload, or \<open>None\<close> when it throws.
\<close>

record jwt_user =
  jwt_id :: oid

record jwt_payload =
  payload_user :: jwt_user

record request =
  x_auth_token :: "string option"
  req_user :: "jwt_user option"

datatype auth_outcome = Rejected response | Next request

definition auth :: "(string \<Rightarrow> jwt_payload option) \<Rightarrow> request \<Rightarrow> auth_outcome" where
  "auth verify req =
     (let token = x_auth_token req in
      if \<not> truthy token
      then Rejected (Response 401 (Msg ''No token, authorization denied''))
      else (case verify (to_str token) of
              Some decoded \<Rightarrow> Next (req\<lparr>req_user := Some (payload_user decoded)\<rparr>)
            | None \<Rightarrow> Rejected (Response 401 (Msg ''Token is not valid''))))"

text \<open>
  A private route, \<^verbatim>\<open>router.get(path, auth, handler)\<close>: the handler runs on the
  request the verifier passes on, and does not run when the verifier has answered.
\<close>

definition protected ::
  "(string \<Rightarrow> jwt_payload option) \<Rightarrow> (request \<Rightarrow> 'st \<Rightarrow> response \<times> 'st) \<Rightarrow>
   request \<Rightarrow> 'st \<Rightarrow> response \<times> 'st" where
  "protected verify handler req st =
     (case auth verify req of
        Rejected r \<Rightarrow> (r, st)
      | Next req' \<Rightarrow> handler req' st)"

section \<open>User directory: registration and login (routes/api/users.js, routes/api/auth.js)\<close>

text \<open>
  The validation library's email test is the parameter \<open>isEmail\<close>; it is run on the
  empty string for an absent field, and no empty string is an email address. The library
  looks a field up in the body, the cookies, the headers, the route parameters and the
  query string of a request, while the handlers read the body. Registration and login
  are modelled for the requests that carry these fields in the body only.
\<close>

definition valid_email :: "(string \<Rightarrow> bool) \<Rightarrow> string option \<Rightarrow> bool" where
  "valid_email isEmail v = (case v of None \<Rightarrow> False | Some e \<Rightarrow> isEmail e)"

record register_body =
  body_name :: "string option"
  body_email :: "string option"
  body_password :: "string option"

definition validate_register :: "(string \<Rightarrow> bool) \<Rightarrow> register_body \<Rightarrow> string list" where
  "validate_register isEmail b =
     (if to_str (body_name b) = [] then [''Name is required''] else []) @
     (if \<not> valid_email isEmail (body_email b) then [''Please include a valid email''] else []) @
     (if length (to_str (body_password b)) < 6
      then [''Please enter a password with 6 or more characters''] else [])"

text \<open>
  \<^verbatim>\<open>POST api/users\<close>. The parameters are the libraries: \<open>gravatar\<close> the avatar URL
  of an email, \<open>salt\<close> the generated salt, \<open>bhash\<close> the password hash, \<open>sign\<close> the
  token signature of a payload with an expiry in seconds (\<open>None\<close> when signing fails),
  and \<open>new_id\<close> the identifier the store mints for the new document. When signing
  fails the callback throws and the request is never answered; the user is saved by then.
\<close>

definition register ::
  "(string \<Rightarrow> bool) \<Rightarrow> (string \<Rightarrow> string) \<Rightarrow> string \<Rightarrow> (string \<Rightarrow> string \<Rightarrow> string) \<Rightarrow>
   (jwt_payload \<Rightarrow> nat \<Rightarrow> string option) \<Rightarrow> users \<Rightarrow> oid \<Rightarrow> register_body \<Rightarrow> response \<times> users" where
  "register isEmail gravatar salt bhash sign us new_id b =
     (let errors = validate_register isEmail b in
      if errors \<noteq> [] then (Response 400 (Errors errors), us)
      else
        (let name = to_str (body_name b);
             email = to_str (body_email b);
             password = to_str (body_password b)
         in case find (\<lambda>u. user_email u = email) us of
              Some existing \<Rightarrow> (Response 400 (Errors [''User already exists'']), us)
            | None \<Rightarrow>
                (let avatar = gravatar email;
                     user = \<lparr>user_id = new_id, user_name = name, user_email = email,
                             user_avatar = avatar, user_password = bhash password salt\<rparr>;
                     us' = us @ [user];
                     payload = \<lparr>payload_user = \<lparr>jwt_id = user_id user\<rparr>\<rparr>
                 in case sign payload 360000 of
                      Some token \<Rightarrow> (Response 200 (Json (JToken token)), us')
                    | None \<Rightarrow> (NoResponse, us'))))"

record login_body =
  login_email :: "string option"
  login_password :: "string option"

definition validate_login :: "(string \<Rightarrow> bool) \<Rightarrow> login_body \<Rightarrow> string list" where
  "validate_login isEmail b =
     (if \<not> valid_email isEmail (login_email b) then [''Please include a valid email''] else []) @
     (if login_password b = None then [''Password is required''] else [])"

text \<open>
  \<^verbatim>\<open>POST api/auth\<close>. \<open>bcompare password hash\<close> is the hash library's comparison of a
  password with a stored hash.
\<close>

definition authenticate ::
  "(string \<Rightarrow> bool) \<Rightarrow> (string \<Rightarrow> string \<Rightarrow> bool) \<Rightarrow> (jwt_payload \<Rightarrow> nat \<Rightarrow> string option) \<Rightarrow>
   users \<Rightarrow> login_body \<Rightarrow> response" where
  "authenticate isEmail bcompare sign us b =
     (let errors = validate_login isEmail b in
      if errors \<noteq> [] then Response 400 (Errors errors)
      else
        (let email = to_str (login_email b);
             password = to_str (login_password b)
         in case find (\<lambda>u. user_email u = email) us of
              None \<Rightarrow> Response 400 (Errors [''Invalid Credentials''])
            | Some user \<Rightarrow>
                if \<not> bcompare password (user_password user)
                then Response 400 (Errors [''Invalid Credentials''])
                else
                  (let payload = \<lparr>payload_user = \<lparr>jwt_id = user_id user\<rparr>\<rparr>
                   in case sign payload 360000 of
                        Some token \<Rightarrow> Response 200 (Json (JToken token))
                      | None \<Rightarrow> NoResponse)))"

section \<open>Profile service (routes/api/profile.js)\<close>

record profile_body =
  b_company :: "string option"
  b_website :: "string option"
  b_location :: "string option"
  b_bio :: "string option"
  b_status :: "string option"
  b_githubusername :: "string option"
  b_skills :: "string option"
  b_youtube :: "string option"
  b_facebook :: "string option"
  b_twitter :: "string option"
  b_instagram :: "string option"
  b_linkedin :: "string option"

text \<open>
  The validation library looks a field up in every location of the request: the body,
  the cookies, the headers, the route parameters and the query string. \<open>elsewhere\<close>
  gives, for a field name, the values that the four locations other than the body define
  for it, in this order. \<^verbatim>\<open>check(field, msg).not().isEmpty()\<close> runs on each location
  that defines the field, and each of them that holds the empty string is an error; when
  no location defines the field, the check runs once on the empty string.
\<close>

type_synonym locations = "string \<Rightarrow> string list"

definition check_not_empty :: "string \<Rightarrow> string option \<Rightarrow> string list \<Rightarrow> string list" where
  "check_not_empty msg body_value others =
     (let defined = (case body_value of None \<Rightarrow> [] | Some v \<Rightarrow> [v]) @ others
      in if defined = [] then [msg] else map (\<lambda>v. msg) (filter (\<lambda>v. v = []) defined))"

definition validate_profile :: "locations \<Rightarrow> profile_body \<Rightarrow> string list" where
  "validate_profile elsewhere b =
     check_not_empty ''Status is required'' (b_status b) (elsewhere ''status'') @
     check_not_empty ''Skill is required'' (b_skills b) (elsewhere ''skills'')"

text \<open>
  The object \<^verbatim>\<open>profileFields\<close>: \<open>None\<close> is a key that was not assigned. The keys
  \<^verbatim>\<open>user\<close> and \<^verbatim>\<open>social\<close> are always assigned, and a key of the social object
  that was not assigned is \<open>None\<close> in it.
\<close>

record profileFields =
  pf_user :: oid
  pf_company :: "string option"
  pf_website :: "string option"
  pf_location :: "string option"
  pf_bio :: "string option"
  pf_status :: "string option"
  pf_githubusername :: "string option"
  pf_skills :: "string list option"
  pf_social :: social

definition build_profileFields :: "oid \<Rightarrow> profile_body \<Rightarrow> profileFields" where
  "build_profileFields uid b =
     \<lparr>pf_user = uid,
      pf_company = (if truthy (b_company b) then b_company b else None),
      pf_website = (if truthy (b_website b) then b_website b else None),
      pf_location = (if truthy (b_location b) then b_location b else None),
      pf_bio = (if truthy (b_bio b) then b_bio b else None),
      pf_status = (if truthy (b_status b) then b_status b else None),
      pf_githubusername = (if truthy (b_githubusername b) then b_githubusername b else None),
      pf_skills =
        (if truthy (b_skills b) then Some (map trim (split_on CHR '','' (to_str (b_skills b))))
         else None),
      pf_social =
        \<lparr>youtube = (if truthy (b_youtube b) then b_youtube b else None),
         twitter = (if truthy (b_twitter b) then b_twitter b else None),
         facebook = (if truthy (b_facebook b) then b_facebook b else None),
         linkedin = (if truthy (b_linkedin b) then b_linkedin b else None),
         instagram = (if truthy (b_instagram b) then b_instagram b else None)\<rparr>\<rparr>"

text \<open>
  The store's update operator \<^verbatim>\<open>$set\<close> with the object \<^verbatim>\<open>profileFields\<close>: each
  key of the object replaces the value of that field of the document, the whole value
  also where it is an embedded object; the fields that are no key of it stay.
\<close>

definition apply_set :: "profileFields \<Rightarrow> profile \<Rightarrow> profile" where
  "apply_set pf p =
     p\<lparr>prof_user := pf_user pf,
       prof_company := (case pf_company pf of Some v \<Rightarrow> Some v | None \<Rightarrow> prof_company p),
       prof_website := (case pf_website pf of Some v \<Rightarrow> Some v | None \<Rightarrow> prof_website p),
       prof_location := (case pf_location pf of Some v \<Rightarrow> Some v | None \<Rightarrow> prof_location p),
       prof_bio := (case pf_bio pf of Some v \<Rightarrow> Some v | None \<Rightarrow> prof_bio p),
       prof_status := (case pf_status pf of Some v \<Rightarrow> Some v | None \<Rightarrow> prof_status p),
       prof_githubusername :=
         (case pf_githubusername pf of Some v \<Rightarrow> Some v | None \<Rightarrow> prof_githubusername p),
       prof_skills := (case pf_skills pf of Some v \<Rightarrow> v | None \<Rightarrow> prof_skills p),
       prof_social := pf_social pf\<rparr>"

text \<open>\<^verbatim>\<open>new Profile(profileFields)\<close>: the lists that were not given are empty.\<close>

definition new_profile :: "profileFields \<Rightarrow> profile" where
  "new_profile pf =
     \<lparr>prof_user = pf_user pf,
      prof_company = pf_company pf,
      prof_website = pf_website pf,
      prof_location = pf_location pf,
      prof_bio = pf_bio pf,
      prof_status = pf_status pf,
      prof_githubusername = pf_githubusername pf,
      prof_skills = (case pf_skills pf of Some v \<Rightarrow> v | None \<Rightarrow> []),
      prof_social = pf_social pf,
      prof_experience = [],
      prof_education = []\<rparr>"

text \<open>
  \<^verbatim>\<open>POST api/profile\<close>; \<open>uid\<close> is \<^verbatim>\<open>req.user.id\<close>, \<open>b\<close> is \<^verbatim>\<open>req.body\<close>
  and \<open>elsewhere\<close> the other locations of the request, which only the validation
  reads. The update of an existing profile is not validated by the store. Modelled from
  the spec: the schema requires the status, so saving a new profile that has none fails,
  which ends in the catch-all.
\<close>

definition upsertProfile ::
  "profiles \<Rightarrow> oid \<Rightarrow> locations \<Rightarrow> profile_body \<Rightarrow> response \<times> profiles" where
  "upsertProfile ps uid elsewhere b =
     (let errors = validate_profile elsewhere b in
      if errors \<noteq> [] then (Response 400 (Errors errors), ps)
      else
        (let profileFields = build_profileFields uid b
         in case find (\<lambda>p. prof_user p = uid) ps of
              Some existing \<Rightarrow>
                (Response 200 (Json (JProfile (apply_set profileFields existing))),
                 update_first (\<lambda>p. prof_user p = uid) (apply_set profileFields) ps)
            | None \<Rightarrow>
                (let profile = new_profile profileFields
                 in if prof_status profile = None then (server_error, ps)
                    else (Response 200 (Json (JProfile profile)), ps @ [profile]))))"

text \<open>
  \<^verbatim>\<open>DELETE api/profile/experience/:exp_id\<close>. A user without a profile makes the
  handler dereference \<^verbatim>\<open>null\<close>, which ends in the catch-all.
\<close>

definition removeExperience :: "profiles \<Rightarrow> oid \<Rightarrow> oid \<Rightarrow> response \<times> profiles" where
  "removeExperience ps uid exp_id_param =
     (case find (\<lambda>p. prof_user p = uid) ps of
        None \<Rightarrow> (server_error, ps)
      | Some profile \<Rightarrow>
          (let removeIndex = indexOf (map exp_id (prof_experience profile)) exp_id_param;
               profile' = profile\<lparr>prof_experience := splice_js (prof_experience profile) removeIndex 1\<rparr>
           in (Response 200 (Json (JProfile profile')),
               update_first (\<lambda>p. prof_user p = uid) (\<lambda>_. profile') ps)))"

text \<open>\<^verbatim>\<open>DELETE api/profile/education/:edu_id\<close>\<close>

definition removeEducation :: "profiles \<Rightarrow> oid \<Rightarrow> oid \<Rightarrow> response \<times> profiles" where
  "removeEducation ps uid edu_id_param =
     (case find (\<lambda>p. prof_user p = uid) ps of
        None \<Rightarrow> (server_error, ps)
      | Some profile \<Rightarrow>
          (let removeIndex = indexOf (map edu_id (prof_education profile)) edu_id_param;
               profile' = profile\<lparr>prof_education := splice_js (prof_education profile) removeIndex 1\<rparr>
           in (Response 200 (Json (JProfile profile')),
               update_first (\<lambda>p. prof_user p = uid) (\<lambda>_. profile') ps)))"


section \<open>Feed service: posts, likes and comments (routes/api/posts.js)\<close>

text \<open>\<^verbatim>\<open>GET api/posts/:id\<close>\<close>

definition getPost :: "(oid \<Rightarrow> bool) \<Rightarrow> posts \<Rightarrow> oid \<Rightarrow> response" where
  "getPost castable ps pid =
     (case findById castable ps pid of
        Inl CastError \<Rightarrow> Response 404 (Msg ''Post not found:inside the catch'')
      | Inr None \<Rightarrow> Response 404 (Msg ''Post not found'')
      | Inr (Some p) \<Rightarrow> Response 200 (Json (JPost p)))"

text \<open>\<^verbatim>\<open>DELETE api/posts/:id\<close>; \<open>uid\<close> is \<^verbatim>\<open>req.user.id\<close>.\<close>

definition deletePost :: "(oid \<Rightarrow> bool) \<Rightarrow> posts \<Rightarrow> oid \<Rightarrow> oid \<Rightarrow> response \<times> posts" where
  "deletePost castable ps uid pid =
     (case findById castable ps pid of
        Inl CastError \<Rightarrow> (Response 404 (Msg ''Post not found''), ps)
      | Inr None \<Rightarrow> (Response 404 (Msg ''Post not found''), ps)
      | Inr (Some p) \<Rightarrow>
          if post_user p \<noteq> uid then (Response 401 (Msg ''User not authorized''), ps)
          else (Response 200 (Msg ''Post removed!''), ps(pid := None)))"

text \<open>
  \<^verbatim>\<open>PUT api/posts/like/:id\<close>. The post is dereferenced without a null check, so an
  absent post raises a TypeError, which, like the cast error, ends in the catch-all.
\<close>

definition likePost :: "(oid \<Rightarrow> bool) \<Rightarrow> posts \<Rightarrow> oid \<Rightarrow> oid \<Rightarrow> response \<times> posts" where
  "likePost castable ps uid pid =
     (case findById castable ps pid of
        Inl CastError \<Rightarrow> (server_error, ps)
      | Inr None \<Rightarrow> (server_error, ps)
      | Inr (Some p) \<Rightarrow>
          if length (filter (\<lambda>l. like_user l = uid) (likes p)) > 0
          then (Response 400 (Msg ''Bad Request: Post already liked''), ps)
          else (let p' = p\<lparr>likes := unshift (likes p) \<lparr>like_user = uid\<rparr>\<rparr>
                in (Response 200 (Json (JLikes (likes p'))), ps(pid \<mapsto> p'))))"

text \<open>\<^verbatim>\<open>PUT api/posts/unlike/:id\<close>\<close>

definition unlikePost :: "(oid \<Rightarrow> bool) \<Rightarrow> posts \<Rightarrow> oid \<Rightarrow> oid \<Rightarrow> response \<times> posts" where
  "unlikePost castable ps uid pid =
     (case findById castable ps pid of
        Inl CastError \<Rightarrow> (server_error, ps)
      | Inr None \<Rightarrow> (server_error, ps)
      | Inr (Some p) \<Rightarrow>
          if length (filter (\<lambda>l. like_user l = uid) (likes p)) = 0
          then (Response 400 (Msg ''Bad Request: Post has not yet been liked''), ps)
          else (let removeIndex = indexOf (map like_user (likes p)) uid;
                    p' = p\<lparr>likes := splice_js (likes p) removeIndex 1\<rparr>
                in (Response 200 (Json (JLikes (likes p'))), ps(pid \<mapsto> p'))))"

text \<open>\<^verbatim>\<open>DELETE api/posts/comment/:id/:comment_id\<close>\<close>

definition removeComment ::
  "(oid \<Rightarrow> bool) \<Rightarrow> posts \<Rightarrow> oid \<Rightarrow> oid \<Rightarrow> oid \<Rightarrow> response \<times> posts" where
  "removeComment castable ps uid pid cid =
     (case findById castable ps pid of
        Inl CastError \<Rightarrow> (server_error, ps)
      | Inr None \<Rightarrow> (server_error, ps)
      | Inr (Some p) \<Rightarrow>
          (case find (\<lambda>c. comment_id c = cid) (comments p) of
             None \<Rightarrow> (Response 404 (Msg ''Comment does not exist''), ps)
           | Some c \<Rightarrow>
               if comment_user c \<noteq> uid then (Response 401 (Msg ''User not authorized''), ps)
               else (let removeIndex = indexOf (map comment_user (comments p)) uid;
                         p' = p\<lparr>comments := splice_js (comments p) removeIndex 1\<rparr>
                     in (Response 200 (Json (JComments (comments p'))), ps(pid \<mapsto> p')))))"


text \<open>
  \<^verbatim>\<open>POST api/posts\<close>. \<open>new_id\<close> is the identifier minted for the new post; the
  store refuses to insert a second document under an identifier, which, like a caller
  who is no stored user, ends in the catch-all. As for registration, the route is modelled
  for the requests that carry the validated field, the text, in the body only.
\<close>

definition createPost ::
  "(oid \<Rightarrow> bool) \<Rightarrow> users \<Rightarrow> posts \<Rightarrow> oid \<Rightarrow> oid \<Rightarrow> string option \<Rightarrow> response \<times> posts" where
  "createPost castable us ps uid new_id text_field =
     (let errors = (if to_str text_field = [] then [''Text is required''] else []) in
      if errors \<noteq> [] then (Response 400 (Errors errors), ps)
      else
        (case findById castable (by_id us) uid of
           Inl CastError \<Rightarrow> (server_error, ps)
         | Inr None \<Rightarrow> (server_error, ps)
         | Inr (Some user) \<Rightarrow>
             (let newPost = \<lparr>post_text = to_str text_field, post_name = user_name user,
                             post_avatar = user_avatar user, post_user = uid,
                             likes = [], comments = []\<rparr>
              in if ps new_id \<noteq> None then (server_error, ps)
                 else (Response 200 (Json (JPost newPost)), ps(new_id \<mapsto> newPost)))))"

text \<open>
  \<^verbatim>\<open>POST api/posts/comment/:id\<close>. \<open>new_cid\<close> is the identifier minted for the new
  comment. As for creating a post, the text is carried in the body only.
\<close>

definition addComment ::
  "(oid \<Rightarrow> bool) \<Rightarrow> users \<Rightarrow> posts \<Rightarrow> oid \<Rightarrow> oid \<Rightarrow> oid \<Rightarrow> string option \<Rightarrow> response \<times> posts" where
  "addComment castable us ps uid pid new_cid text_field =
     (let errors = (if to_str text_field = [] then [''Text is required''] else []) in
      if errors \<noteq> [] then (Response 400 (Errors errors), ps)
      else
        (case findById castable (by_id us) uid of
           Inl CastError \<Rightarrow> (server_error, ps)
         | Inr user \<Rightarrow>
             (case findById castable ps pid of
                Inl CastError \<Rightarrow> (server_error, ps)
              | Inr post \<Rightarrow>
                  (case user of
                     None \<Rightarrow> (server_error, ps)
                   | Some author \<Rightarrow>
                       (let newComment = \<lparr>comment_id = new_cid, comment_text = to_str text_field,
                                          comment_name = user_name author,
                                          comment_avatar = user_avatar author,
                                          comment_user = uid\<rparr>
                        in case post of
                             None \<Rightarrow> (server_error, ps)
                           | Some p \<Rightarrow>
                               (let p' = p\<lparr>comments := unshift (comments p) newComment\<rparr>
                                in (Response 200 (Json (JComments (comments p'))),
                                    ps(pid \<mapsto> p'))))))))"

section \<open>Properties stated by the specification\<close>

text \<open>
  The first element of a list that satisfies a test is taken out; the list is unchanged
  when there is none.
\<close>

fun remove_first :: "('a \<Rightarrow> bool) \<Rightarrow> 'a list \<Rightarrow> 'a list" where
  "remove_first P [] = []"
| "remove_first P (x # xs) = (if P x then xs else x # remove_first P xs)"

text \<open>The invariant of a post: a user appears at most once in its like list.\<close>

definition likes_unique :: "post \<Rightarrow> bool" where
  "likes_unique p = distinct (map like_user (likes p))"

definition feed_inv :: "posts \<Rightarrow> bool" where
  "feed_inv ps = (\<forall>pid p. ps pid = Some p \<longrightarrow> likes_unique p)"

text \<open>
  The requests that write to the posts: each is a route of the feed service with its
  caller and its parameters.
\<close>

datatype feed_op =
  CreatePost oid oid "string option"
| DeletePost oid oid
| LikePost oid oid
| UnlikePost oid oid
| AddComment oid oid oid "string option"
| RemoveComment oid oid oid

fun feed_step :: "(oid \<Rightarrow> bool) \<Rightarrow> users \<Rightarrow> feed_op \<Rightarrow> posts \<Rightarrow> response \<times> posts" where
  "feed_step castable us (CreatePost uid new_id t) ps = createPost castable us ps uid new_id t"
| "feed_step castable us (DeletePost uid pid) ps = deletePost castable ps uid pid"
| "feed_step castable us (LikePost uid pid) ps = likePost castable ps uid pid"
| "feed_step castable us (UnlikePost uid pid) ps = unlikePost castable ps uid pid"
| "feed_step castable us (AddComment uid pid new_cid t) ps =
     addComment castable us ps uid pid new_cid t"
| "feed_step castable us (RemoveComment uid pid cid) ps = removeComment castable ps uid pid cid"

text \<open>\<^verbatim>\<open>Array.prototype.join(sep)\<close> on a list of strings, the inverse of a split.\<close>

fun join_with :: "char \<Rightarrow> string list \<Rightarrow> string" where
  "join_with sep [] = []"
| "join_with sep [s] = s"
| "join_with sep (s # t # ss) = s @ sep # join_with sep (t # ss)"

section \<open>Example data\<close>

text \<open>
  A store with one post of user \<open>u1\<close> on which \<open>u1\<close> has written two comments, the
  newer one first, and which \<open>u2\<close> has liked.
\<close>

definition ex_castable :: "oid \<Rightarrow> bool" where
  "ex_castable i = (length i = 2)"

definition ex_comment_new :: comment where
  "ex_comment_new = \<lparr>comment_id = ''c2'', comment_text = ''second'', comment_name = ''Ann'',
                      comment_avatar = ''a.png'', comment_user = ''u1''\<rparr>"

definition ex_comment_old :: comment where
  "ex_comment_old = \<lparr>comment_id = ''c1'', comment_text = ''first'', comment_name = ''Ann'',
                      comment_avatar = ''a.png'', comment_user = ''u1''\<rparr>"

definition ex_post :: post where
  "ex_post = \<lparr>post_text = ''hello'', post_name = ''Ann'', post_avatar = ''a.png'',
               post_user = ''u1'', likes = [\<lparr>like_user = ''u2''\<rparr>],
               comments = [ex_comment_new, ex_comment_old]\<rparr>"

definition ex_posts :: posts where
  "ex_posts = [''p1'' \<mapsto> ex_post]"

text \<open>
  A token verification that accepts one token, and a request with a given header.
\<close>

definition ex_verify :: "string \<Rightarrow> jwt_payload option" where
  "ex_verify t = (if t = ''good'' then Some \<lparr>payload_user = \<lparr>jwt_id = ''u1''\<rparr>\<rparr> else None)"

definition ex_request :: "string option \<Rightarrow> request" where
  "ex_request header = \<lparr>x_auth_token = header, req_user = None\<rparr>"

text \<open>
  Toy instances of the validation, avatar, hashing and signing libraries, a registration
  body and the user it creates.
\<close>

definition ex_isEmail :: "string \<Rightarrow> bool" where
  "ex_isEmail e = (CHR ''@'' \<in> set e)"

definition ex_gravatar :: "string \<Rightarrow> string" where
  "ex_gravatar e = ''gravatar/'' @ e"

definition ex_bhash :: "string \<Rightarrow> string \<Rightarrow> string" where
  "ex_bhash password salt = salt @ ''$'' @ password"

definition ex_bcompare :: "string \<Rightarrow> string \<Rightarrow> bool" where
  "ex_bcompare password hash = (hash = ''salt$'' @ password)"

definition ex_sign :: "jwt_payload \<Rightarrow> nat \<Rightarrow> string option" where
  "ex_sign p expiresIn =
     Some (jwt_id (payload_user p) @ (if expiresIn = 360000 then ''.100h'' else ''.other''))"

definition ex_register_body :: register_body where
  "ex_register_body =
     \<lparr>body_name = Some ''Ann'', body_email = Some ''ann@x.io'', body_password = Some ''secret1''\<rparr>"

definition ex_user :: user where
  "ex_user = \<lparr>user_id = ''u1'', user_name = ''Ann'', user_email = ''ann@x.io'',
               user_avatar = ''gravatar/ann@x.io'', user_password = ''salt$secret1''\<rparr>"

definition ex_login_body :: "string \<Rightarrow> string \<Rightarrow> login_body" where
  "ex_login_body e pw = \<lparr>login_email = Some e, login_password = Some pw\<rparr>"

text \<open>
  A profile of user \<open>u1\<close> with two experience entries, the newer one first, an
  education entry and a social link; a body for the upsert that passes validation, with
  an empty company and no video link; a request that carries nothing outside its body,
  and one whose query string carries a status and skills, with a body that carries a
  company only; and the profile the upsert makes of the profile and the first body.
\<close>

definition ex_experience_new :: experience where
  "ex_experience_new = \<lparr>exp_id = ''e2'', exp_title = ''Lead'', exp_company = ''Acme'',
                         exp_location = None, exp_from = ''2020-01-01'', exp_to = None,
                         exp_current = None, exp_description = None\<rparr>"

definition ex_experience_old :: experience where
  "ex_experience_old = \<lparr>exp_id = ''e1'', exp_title = ''Intern'', exp_company = ''Initech'',
                         exp_location = None, exp_from = ''2018-01-01'', exp_to = Some ''2019-01-01'',
                         exp_current = None, exp_description = None\<rparr>"

definition ex_education :: education where
  "ex_education = \<lparr>edu_id = ''d1'', edu_school = ''MIT'', edu_degree = ''BSc'',
                    edu_fieldofstudy = ''CS'', edu_from = ''2014-09-01'', edu_to = None,
                    edu_current = None, edu_description = None\<rparr>"

definition ex_profile :: profile where
  "ex_profile =
     \<lparr>prof_user = ''u1'', prof_company = Some ''Acme'', prof_website = None,
      prof_location = Some ''Oslo'', prof_bio = None, prof_status = Some ''Developer'',
      prof_githubusername = None, prof_skills = [''html''],
      prof_social = \<lparr>youtube = Some ''yt/ann'', twitter = None, facebook = None,
                      linkedin = None, instagram = None\<rparr>,
      prof_experience = [ex_experience_new, ex_experience_old],
      prof_education = [ex_education]\<rparr>"

definition ex_profile_body :: profile_body where
  "ex_profile_body =
     \<lparr>b_company = Some [], b_website = Some ''ann.io'', b_location = None, b_bio = None,
      b_status = Some ''Senior'', b_githubusername = None, b_skills = Some ''a, b ,c'',
      b_youtube = None, b_facebook = None, b_twitter = Some ''tw/ann'', b_instagram = None,
      b_linkedin = None\<rparr>"

definition ex_body_only :: locations where
  "ex_body_only field = []"

definition ex_query :: locations where
  "ex_query field =
     (if field = ''status'' then [''Guru''] else if field = ''skills'' then [''x,y''] else [])"

definition ex_company_body :: profile_body where
  "ex_company_body =
     \<lparr>b_company = Some ''New'', b_website = None, b_location = None, b_bio = None,
      b_status = None, b_githubusername = None, b_skills = None,
      b_youtube = None, b_facebook = None, b_twitter = None, b_instagram = None,
      b_linkedin = None\<rparr>"

definition ex_profile_after :: profile where
  "ex_profile_after =
     \<lparr>prof_user = ''u1'', prof_company = Some ''Acme'', prof_website = Some ''ann.io'',
      prof_location = Some ''Oslo'', prof_bio = None, prof_status = Some ''Senior'',
      prof_githubusername = None, prof_skills = [''a'', ''b'', ''c''],
      prof_social = \<lparr>youtube = None, twitter = Some ''tw/ann'', facebook = None,
                      linkedin = None, instagram = None\<rparr>,
      prof_experience = [ex_experience_new, ex_experience_old],
      prof_education = [ex_education]\<rparr>"

section \<open>Theorems\<close>

subsection \<open>JavaScript arrays\<close>

lemma indexOf_notin: "x \<notin> set xs \<Longrightarrow> indexOf xs x = - 1"
  by (induction xs) (auto simp: Let_def)

lemma indexOf_in: "x \<in> set xs \<Longrightarrow> 0 \<le> indexOf xs x \<and> indexOf xs x < int (length xs)"
  by (induction xs) (auto simp: Let_def)

lemma splice_js_at: "0 \<le> i \<Longrightarrow> splice_js xs i 1 = take (nat i) xs @ drop (Suc (nat i)) xs"
  unfolding splice_js_def Let_def
  by (cases "i < int (length xs)") (auto simp: min_def max_def nat_add_distrib)

text \<open>
  Splicing one element out at the index of the first element with a given key is taking
  the first element with that key out.
\<close>

lemma splice_js_indexOf_map:
  "x \<in> set (map f xs) \<Longrightarrow>
     splice_js xs (indexOf (map f xs) x) 1 = remove_first (\<lambda>y. f y = x) xs"
proof (induction xs)
  case Nil
  then show ?case by simp
next
  case (Cons a xs)
  show ?case
  proof (cases "f a = x")
    case True
    then show ?thesis by (simp add: splice_js_at)
  next
    case False
    with Cons.prems have mem: "x \<in> set (map f xs)" by auto
    from indexOf_in [OF mem] have nn: "0 \<le> indexOf (map f xs) x" by simp
    have "splice_js (a # xs) (indexOf (map f xs) x + 1) 1 =
        a # splice_js xs (indexOf (map f xs) x) 1"
      using nn by (simp add: splice_js_at nat_add_distrib)
    with False nn Cons.IH [OF mem] show ?thesis by (simp add: Let_def)
  qed
qed

text \<open>Splicing at \<open>-1\<close> takes the last element out.\<close>

lemma splice_js_minus_one: "splice_js xs (- 1) 1 = butlast xs"
  unfolding splice_js_def Let_def
  by (cases xs rule: rev_cases) (auto simp: min_def max_def nat_add_distrib)

lemma remove_first_distinct:
  "distinct (map f xs) \<Longrightarrow> remove_first (\<lambda>y. f y = x) xs = filter (\<lambda>y. f y \<noteq> x) xs"
proof (induction xs)
  case Nil
  then show ?case by simp
next
  case (Cons a xs)
  then show ?case
    by (auto intro!: filter_True [symmetric] simp: image_iff)
qed

lemma find_SomeD: "find P xs = Some c \<Longrightarrow> c \<in> set xs \<and> P c"
  by (induction xs) (auto split: if_splits)

lemma remove_first_find: "find P xs = Some c \<Longrightarrow> remove_first P xs = remove1 c xs"
  by (induction xs) (auto split: if_splits dest: find_SomeD)

subsection \<open>Feed service\<close>

text \<open>
  Claim C1. On an existing post, removing a comment first looks the comment up by its
  identifier: when there is none the answer is 404 and the store is unchanged; when the
  comment found is not the caller's the answer is 401 and the store is unchanged;
  otherwise the comment taken out is the first comment of the list that the caller owns,
  found by the caller's id and not by the identifier of the comment looked up. So when
  that first comment of the caller is another one than the comment looked up, the comment
  looked up stays in the list and the other one is gone.
\<close>

theorem removeComment_removes_first_owned:
  assumes "castable pid" and "ps pid = Some p"
  shows
    "(find (\<lambda>c. comment_id c = cid) (comments p) = None \<longrightarrow>
        removeComment castable ps uid pid cid =
          (Response 404 (Msg ''Comment does not exist''), ps)) \<and>
     (\<forall>c. find (\<lambda>c. comment_id c = cid) (comments p) = Some c \<and> comment_user c \<noteq> uid \<longrightarrow>
        removeComment castable ps uid pid cid =
          (Response 401 (Msg ''User not authorized''), ps)) \<and>
     (\<forall>c. find (\<lambda>c. comment_id c = cid) (comments p) = Some c \<and> comment_user c = uid \<longrightarrow>
        removeComment castable ps uid pid cid =
          (Response 200
             (Json (JComments (remove_first (\<lambda>c. comment_user c = uid) (comments p)))),
           ps(pid \<mapsto> p\<lparr>comments := remove_first (\<lambda>c. comment_user c = uid) (comments p)\<rparr>))) \<and>
     (\<forall>c c0. find (\<lambda>c. comment_id c = cid) (comments p) = Some c \<and> comment_user c = uid \<and>
        find (\<lambda>c. comment_user c = uid) (comments p) = Some c0 \<and> c0 \<noteq> c \<and>
        distinct (comments p) \<longrightarrow>
        c \<in> set (remove_first (\<lambda>c. comment_user c = uid) (comments p)) \<and>
        c0 \<notin> set (remove_first (\<lambda>c. comment_user c = uid) (comments p)))"
proof -
  have found: "findById castable ps pid = Inr (Some p)"
    using assms by (simp add: findById_def)
  have owned: "removeComment castable ps uid pid cid =
      (Response 200 (Json (JComments (remove_first (\<lambda>c. comment_user c = uid) (comments p)))),
       ps(pid \<mapsto> p\<lparr>comments := remove_first (\<lambda>c. comment_user c = uid) (comments p)\<rparr>))"
    if "find (\<lambda>c. comment_id c = cid) (comments p) = Some c" and "comment_user c = uid" for c
  proof -
    from find_SomeD [OF that(1)] that(2) have "uid \<in> set (map comment_user (comments p))"
      by auto
    from splice_js_indexOf_map [OF this] that found show ?thesis
      by (simp add: removeComment_def Let_def)
  qed
  have differ: "c \<in> set (remove_first (\<lambda>c. comment_user c = uid) (comments p)) \<and>
        c0 \<notin> set (remove_first (\<lambda>c. comment_user c = uid) (comments p))"
    if "find (\<lambda>c. comment_id c = cid) (comments p) = Some c"
      and "find (\<lambda>c. comment_user c = uid) (comments p) = Some c0"
      and "c0 \<noteq> c" and "distinct (comments p)" for c c0
  proof -
    from find_SomeD [OF that(1)] have "c \<in> set (comments p)" by simp
    with that show ?thesis
      by (simp add: remove_first_find)
  qed
  show ?thesis
    using found owned differ by (auto simp: removeComment_def)
qed

text \<open>
  In the example the caller \<open>u1\<close> asks to remove the older comment \<open>c1\<close>; the newer
  comment \<open>c2\<close>, the first one \<open>u1\<close> owns, is removed and \<open>c1\<close> is what is left.
\<close>

theorem removeComment_removes_first_owned_witness:
  "ex_castable ''p1'' \<and> ex_posts ''p1'' = Some ex_post \<and>
   find (\<lambda>c. comment_id c = ''c1'') (comments ex_post) = Some ex_comment_old \<and>
   find (\<lambda>c. comment_user c = ''u1'') (comments ex_post) = Some ex_comment_new \<and>
   removeComment ex_castable ex_posts ''u1'' ''p1'' ''c1'' =
     (Response 200 (Json (JComments [ex_comment_old])),
      ex_posts(''p1'' \<mapsto> ex_post\<lparr>comments := [ex_comment_old]\<rparr>)) \<and>
   removeComment ex_castable ex_posts ''u1'' ''p1'' ''zz'' =
     (Response 404 (Msg ''Comment does not exist''), ex_posts) \<and>
   removeComment ex_castable ex_posts ''u2'' ''p1'' ''c1'' =
     (Response 401 (Msg ''User not authorized''), ex_posts)"
proof -
  have pre: "ex_castable ''p1''" "ex_posts ''p1'' = Some ex_post"
    by (simp_all add: ex_castable_def ex_posts_def)
  have look: "find (\<lambda>c. comment_id c = ''c1'') (comments ex_post) = Some ex_comment_old"
    "find (\<lambda>c. comment_id c = ''zz'') (comments ex_post) = None"
    "find (\<lambda>c. comment_user c = ''u1'') (comments ex_post) = Some ex_comment_new"
    "comment_user ex_comment_old = ''u1''"
    "remove_first (\<lambda>c. comment_user c = ''u1'') (comments ex_post) = [ex_comment_old]"
    by (simp_all add: ex_post_def ex_comment_new_def ex_comment_old_def)
  note spec = removeComment_removes_first_owned
                [where castable = ex_castable and ps = ex_posts and pid = "''p1''" and p = ex_post]
  from spec [where cid = "''c1''" and uid = "''u1''"]
    spec [where cid = "''zz''" and uid = "''u1''"]
    spec [where cid = "''c1''" and uid = "''u2''"]
    pre look
  show ?thesis by simp
qed

lemma filter_key_empty: "(filter (\<lambda>y. f y = x) xs = []) = (x \<notin> f ` set xs)"
  by (auto simp: filter_empty_conv)

lemma feed_inv_update: "feed_inv ps \<Longrightarrow> likes_unique p \<Longrightarrow> feed_inv (ps(pid \<mapsto> p))"
  by (simp add: feed_inv_def)

lemma feed_inv_delete: "feed_inv ps \<Longrightarrow> feed_inv (ps(pid := None))"
  by (simp add: feed_inv_def)

lemma feed_inv_lookup: "feed_inv ps \<Longrightarrow> ps pid = Some p \<Longrightarrow> likes_unique p"
  by (auto simp: feed_inv_def)

lemma set_remove_first: "set (remove_first P xs) \<subseteq> set xs"
  by (induction xs) auto

lemma distinct_remove_first: "distinct (map f xs) \<Longrightarrow> distinct (map f (remove_first P xs))"
proof (induction xs)
  case Nil
  then show ?case by simp
next
  case (Cons a xs)
  from set_remove_first [of P xs] have "f ` set (remove_first P xs) \<subseteq> f ` set xs"
    by blast
  with Cons show ?case by auto
qed

lemma likePost_inv: "feed_inv ps \<Longrightarrow> feed_inv (snd (likePost castable ps uid pid))"
proof -
  assume inv: "feed_inv ps"
  show ?thesis
  proof (cases "findById castable ps pid")
    case (Inl e)
    with inv show ?thesis by (cases e) (simp add: likePost_def)
  next
    case (Inr found)
    show ?thesis
    proof (cases found)
      case None
      with Inr inv show ?thesis by (simp add: likePost_def)
    next
      case (Some p)
      with Inr have "ps pid = Some p" by (simp add: findById_def split: if_splits)
      with inv have "likes_unique p" by (rule feed_inv_lookup)
      then have "uid \<notin> like_user ` set (likes p) \<Longrightarrow>
          likes_unique (p\<lparr>likes := \<lparr>like_user = uid\<rparr> # likes p\<rparr>)"
        by (simp add: likes_unique_def)
      with Inr Some inv show ?thesis
        by (auto simp: likePost_def unshift_def Let_def filter_key_empty
            intro!: feed_inv_update)
    qed
  qed
qed

lemma unlikePost_inv: "feed_inv ps \<Longrightarrow> feed_inv (snd (unlikePost castable ps uid pid))"
proof -
  assume inv: "feed_inv ps"
  show ?thesis
  proof (cases "findById castable ps pid")
    case (Inl e)
    with inv show ?thesis by (cases e) (simp add: unlikePost_def)
  next
    case (Inr found)
    show ?thesis
    proof (cases found)
      case None
      with Inr inv show ?thesis by (simp add: unlikePost_def)
    next
      case (Some p)
      with Inr have "ps pid = Some p" by (simp add: findById_def split: if_splits)
      with inv have uniq: "likes_unique p" by (rule feed_inv_lookup)
      have "likes_unique (p\<lparr>likes := splice_js (likes p) (indexOf (map like_user (likes p)) uid) 1\<rparr>)"
        if "uid \<in> like_user ` set (likes p)"
      proof -
        from that have "uid \<in> set (map like_user (likes p))" by simp
        from splice_js_indexOf_map [OF this] uniq show ?thesis
          by (simp add: likes_unique_def distinct_remove_first)
      qed
      with Inr Some inv show ?thesis
        by (auto simp: unlikePost_def Let_def filter_key_empty intro!: feed_inv_update)
    qed
  qed
qed

lemma deletePost_inv: "feed_inv ps \<Longrightarrow> feed_inv (snd (deletePost castable ps uid pid))"
  by (auto simp: deletePost_def split: sum.splits option.splits query_error.splits
      intro: feed_inv_delete)

lemma createPost_inv:
  "feed_inv ps \<Longrightarrow> feed_inv (snd (createPost castable us ps uid new_id t))"
  by (auto simp: createPost_def Let_def likes_unique_def
      split: sum.splits option.splits query_error.splits intro!: feed_inv_update)

lemma addComment_inv:
  "feed_inv ps \<Longrightarrow> feed_inv (snd (addComment castable us ps uid pid new_cid t))"
proof -
  assume inv: "feed_inv ps"
  have "likes_unique (p\<lparr>comments := cs\<rparr>)" if "findById castable ps pid = Inr (Some p)" for p cs
  proof -
    from that have "ps pid = Some p" by (simp add: findById_def split: if_splits)
    with inv have "likes_unique p" by (rule feed_inv_lookup)
    then show ?thesis by (simp add: likes_unique_def)
  qed
  with inv show ?thesis
    by (auto simp: addComment_def Let_def
        split: sum.splits option.splits query_error.splits intro!: feed_inv_update)
qed

lemma removeComment_inv:
  "feed_inv ps \<Longrightarrow> feed_inv (snd (removeComment castable ps uid pid cid))"
proof -
  assume inv: "feed_inv ps"
  have "likes_unique (p\<lparr>comments := cs\<rparr>)" if "findById castable ps pid = Inr (Some p)" for p cs
  proof -
    from that have "ps pid = Some p" by (simp add: findById_def split: if_splits)
    with inv have "likes_unique p" by (rule feed_inv_lookup)
    then show ?thesis by (simp add: likes_unique_def)
  qed
  with inv show ?thesis
    by (auto simp: removeComment_def Let_def
        split: sum.splits option.splits query_error.splits intro!: feed_inv_update)
qed

lemma feed_step_inv: "feed_inv ps \<Longrightarrow> feed_inv (snd (feed_step castable us op ps))"
  by (cases op)
    (simp_all add: createPost_inv deletePost_inv likePost_inv unlikePost_inv addComment_inv
      removeComment_inv)

text \<open>
  Claim C6. A user appears at most once in the like list of a post, and every request
  that writes to the posts keeps it so: the empty store satisfies the invariant and each
  step of the feed service preserves it, on every store. On an existing post, liking answers 400 when the
  caller is in the like list and otherwise puts exactly one entry for the caller at the
  head; unliking answers 400 when the caller is not in the list and otherwise takes the
  caller's entry out, which under the invariant leaves no entry of the caller; both
  answer with the updated list.
\<close>

theorem like_list_unique_invariant:
  "(castable pid \<and> ps pid = Some p \<longrightarrow>
      (uid \<in> like_user ` set (likes p) \<longrightarrow>
         likePost castable ps uid pid =
           (Response 400 (Msg ''Bad Request: Post already liked''), ps)) \<and>
      (uid \<notin> like_user ` set (likes p) \<longrightarrow>
         likePost castable ps uid pid =
           (Response 200 (Json (JLikes (\<lparr>like_user = uid\<rparr> # likes p))),
            ps(pid \<mapsto> p\<lparr>likes := \<lparr>like_user = uid\<rparr> # likes p\<rparr>))) \<and>
      (uid \<notin> like_user ` set (likes p) \<longrightarrow>
         unlikePost castable ps uid pid =
           (Response 400 (Msg ''Bad Request: Post has not yet been liked''), ps)) \<and>
      (uid \<in> like_user ` set (likes p) \<longrightarrow>
         unlikePost castable ps uid pid =
           (Response 200 (Json (JLikes (remove_first (\<lambda>l. like_user l = uid) (likes p)))),
            ps(pid \<mapsto> p\<lparr>likes := remove_first (\<lambda>l. like_user l = uid) (likes p)\<rparr>))) \<and>
      (likes_unique p \<longrightarrow>
         remove_first (\<lambda>l. like_user l = uid) (likes p) =
           filter (\<lambda>l. like_user l \<noteq> uid) (likes p))) \<and>
   feed_inv Map.empty \<and>
   (\<forall>op us. feed_inv ps \<longrightarrow> feed_inv (snd (feed_step castable us op ps)))"
proof -
  have behaviour:
    "(uid \<in> like_user ` set (likes p) \<longrightarrow>
         likePost castable ps uid pid =
           (Response 400 (Msg ''Bad Request: Post already liked''), ps)) \<and>
      (uid \<notin> like_user ` set (likes p) \<longrightarrow>
         likePost castable ps uid pid =
           (Response 200 (Json (JLikes (\<lparr>like_user = uid\<rparr> # likes p))),
            ps(pid \<mapsto> p\<lparr>likes := \<lparr>like_user = uid\<rparr> # likes p\<rparr>))) \<and>
      (uid \<notin> like_user ` set (likes p) \<longrightarrow>
         unlikePost castable ps uid pid =
           (Response 400 (Msg ''Bad Request: Post has not yet been liked''), ps)) \<and>
      (uid \<in> like_user ` set (likes p) \<longrightarrow>
         unlikePost castable ps uid pid =
           (Response 200 (Json (JLikes (remove_first (\<lambda>l. like_user l = uid) (likes p)))),
            ps(pid \<mapsto> p\<lparr>likes := remove_first (\<lambda>l. like_user l = uid) (likes p)\<rparr>))) \<and>
      (likes_unique p \<longrightarrow>
         remove_first (\<lambda>l. like_user l = uid) (likes p) =
           filter (\<lambda>l. like_user l \<noteq> uid) (likes p))" (is ?behaviour)
    if "castable pid" and "ps pid = Some p"
  proof -
    have found: "findById castable ps pid = Inr (Some p)"
      using that by (simp add: findById_def)
    have unlike: "splice_js (likes p) (indexOf (map like_user (likes p)) uid) 1 =
        remove_first (\<lambda>l. like_user l = uid) (likes p)"
      if "uid \<in> like_user ` set (likes p)"
      using that splice_js_indexOf_map [of uid like_user "likes p"] by simp
    show ?thesis
      using found unlike
      by (auto simp: likePost_def unlikePost_def unshift_def Let_def filter_key_empty
          likes_unique_def remove_first_distinct)
  qed
  have init: "feed_inv Map.empty"
    by (simp add: feed_inv_def)
  have step: "\<forall>op us. feed_inv ps \<longrightarrow> feed_inv (snd (feed_step castable us op ps))"
    by (simp add: feed_step_inv)
  have existing: "castable pid \<and> ps pid = Some p \<longrightarrow> ?behaviour"
  proof (rule impI, elim conjE)
    assume "castable pid" and "ps pid = Some p"
    then show ?behaviour by (rule behaviour)
  qed
  from existing init step show ?thesis
    by (intro conjI)
qed

theorem like_list_unique_invariant_witness:
  "ex_castable ''p1'' \<and> ex_posts ''p1'' = Some ex_post \<and> feed_inv ex_posts \<and>
   likePost ex_castable ex_posts ''u2'' ''p1'' =
     (Response 400 (Msg ''Bad Request: Post already liked''), ex_posts) \<and>
   likePost ex_castable ex_posts ''u3'' ''p1'' =
     (Response 200 (Json (JLikes [\<lparr>like_user = ''u3''\<rparr>, \<lparr>like_user = ''u2''\<rparr>])),
      ex_posts(''p1'' \<mapsto> ex_post\<lparr>likes := [\<lparr>like_user = ''u3''\<rparr>, \<lparr>like_user = ''u2''\<rparr>]\<rparr>)) \<and>
   unlikePost ex_castable ex_posts ''u3'' ''p1'' =
     (Response 400 (Msg ''Bad Request: Post has not yet been liked''), ex_posts) \<and>
   unlikePost ex_castable ex_posts ''u2'' ''p1'' =
     (Response 200 (Json (JLikes [])), ex_posts(''p1'' \<mapsto> ex_post\<lparr>likes := []\<rparr>)) \<and>
   feed_inv (snd (feed_step ex_castable [] (LikePost ''u3'' ''p1'') ex_posts)) \<and>
   feed_inv (snd (feed_step ex_castable [] (LikePost ''u3'' ''p1'') Map.empty))"
proof -
  have pre: "ex_castable ''p1''" "ex_posts ''p1'' = Some ex_post"
    by (simp_all add: ex_castable_def ex_posts_def)
  have inv: "feed_inv ex_posts"
    by (simp add: feed_inv_def ex_posts_def likes_unique_def ex_post_def)
  have look: "likes ex_post = [\<lparr>like_user = ''u2''\<rparr>]"
    by (simp add: ex_post_def)
  note u2 = like_list_unique_invariant
      [where castable = ex_castable and ps = ex_posts and pid = "''p1''" and p = ex_post
        and uid = "''u2''", THEN conjunct1, rule_format, OF conjI, OF pre]
  note u3 = like_list_unique_invariant
      [where castable = ex_castable and ps = ex_posts and pid = "''p1''" and p = ex_post
        and uid = "''u3''", THEN conjunct1, rule_format, OF conjI, OF pre]
  have step: "feed_inv (snd (feed_step ex_castable [] (LikePost ''u3'' ''p1'') ex_posts))"
    by (rule like_list_unique_invariant
          [where castable = ex_castable and ps = ex_posts, THEN conjunct2, THEN conjunct2,
            rule_format, OF inv])
  have empty_step:
    "feed_inv (snd (feed_step ex_castable [] (LikePost ''u3'' ''p1'') Map.empty))"
    by (rule like_list_unique_invariant
          [where castable = ex_castable and ps = Map.empty, THEN conjunct2, THEN conjunct2,
            rule_format,
            OF like_list_unique_invariant [THEN conjunct2, THEN conjunct1]])
  from u2 u3 look
  have "likePost ex_castable ex_posts ''u2'' ''p1'' =
        (Response 400 (Msg ''Bad Request: Post already liked''), ex_posts)"
    and "likePost ex_castable ex_posts ''u3'' ''p1'' =
        (Response 200 (Json (JLikes [\<lparr>like_user = ''u3''\<rparr>, \<lparr>like_user = ''u2''\<rparr>])),
         ex_posts(''p1'' \<mapsto> ex_post\<lparr>likes := [\<lparr>like_user = ''u3''\<rparr>, \<lparr>like_user = ''u2''\<rparr>]\<rparr>))"
    and "unlikePost ex_castable ex_posts ''u3'' ''p1'' =
        (Response 400 (Msg ''Bad Request: Post has not yet been liked''), ex_posts)"
    and "unlikePost ex_castable ex_posts ''u2'' ''p1'' =
        (Response 200 (Json (JLikes [])), ex_posts(''p1'' \<mapsto> ex_post\<lparr>likes := []\<rparr>))"
    by simp_all
  with pre inv step empty_step show ?thesis by (intro conjI)
qed

text \<open>
  Claim C7. Deleting a post answers 404 when the identifier is malformed or no post has
  it; it answers 401 and leaves the store unchanged when the post belongs to another
  user than the caller; otherwise it removes the post, and fetching the same identifier
  afterwards answers 404.
\<close>

theorem deletePost_spec:
  "(\<not> castable pid \<or> ps pid = None \<longrightarrow>
      deletePost castable ps uid pid = (Response 404 (Msg ''Post not found''), ps)) \<and>
   (castable pid \<and> ps pid = Some p \<and> post_user p \<noteq> uid \<longrightarrow>
      deletePost castable ps uid pid = (Response 401 (Msg ''User not authorized''), ps)) \<and>
   (castable pid \<and> ps pid = Some p \<and> post_user p = uid \<longrightarrow>
      deletePost castable ps uid pid = (Response 200 (Msg ''Post removed!''), ps(pid := None)) \<and>
      getPost castable (snd (deletePost castable ps uid pid)) pid =
        Response 404 (Msg ''Post not found''))"
  by (auto simp: deletePost_def getPost_def findById_def)

theorem deletePost_spec_witness:
  "deletePost ex_castable ex_posts ''u1'' ''p9'' = (Response 404 (Msg ''Post not found''), ex_posts) \<and>
   deletePost ex_castable ex_posts ''u1'' ''malformed'' =
     (Response 404 (Msg ''Post not found''), ex_posts) \<and>
   deletePost ex_castable ex_posts ''u2'' ''p1'' =
     (Response 401 (Msg ''User not authorized''), ex_posts) \<and>
   getPost ex_castable ex_posts ''p1'' = Response 200 (Json (JPost ex_post)) \<and>
   deletePost ex_castable ex_posts ''u1'' ''p1'' =
     (Response 200 (Msg ''Post removed!''), ex_posts(''p1'' := None)) \<and>
   getPost ex_castable (snd (deletePost ex_castable ex_posts ''u1'' ''p1'')) ''p1'' =
     Response 404 (Msg ''Post not found'')"
proof -
  have pre: "ex_castable ''p1''" "ex_castable ''p9''" "\<not> ex_castable ''malformed''"
    "ex_posts ''p1'' = Some ex_post" "ex_posts ''p9'' = None" "post_user ex_post = ''u1''"
    by (simp_all add: ex_castable_def ex_posts_def ex_post_def)
  have fetch: "getPost ex_castable ex_posts ''p1'' = Response 200 (Json (JPost ex_post))"
    using pre by (simp add: getPost_def findById_def)
  note spec = deletePost_spec [where castable = ex_castable and ps = ex_posts and p = ex_post]
  have absent: "deletePost ex_castable ex_posts ''u1'' ''p9'' =
      (Response 404 (Msg ''Post not found''), ex_posts)"
    using spec [where pid = "''p9''" and uid = "''u1''"] pre by simp
  have malformed: "deletePost ex_castable ex_posts ''u1'' ''malformed'' =
      (Response 404 (Msg ''Post not found''), ex_posts)"
    using spec [where pid = "''malformed''" and uid = "''u1''"] pre by simp
  have other: "deletePost ex_castable ex_posts ''u2'' ''p1'' =
      (Response 401 (Msg ''User not authorized''), ex_posts)"
    using spec [where pid = "''p1''" and uid = "''u2''"] pre by simp
  have own: "deletePost ex_castable ex_posts ''u1'' ''p1'' =
      (Response 200 (Msg ''Post removed!''), ex_posts(''p1'' := None)) \<and>
    getPost ex_castable (snd (deletePost ex_castable ex_posts ''u1'' ''p1'')) ''p1'' =
      Response 404 (Msg ''Post not found'')"
    using spec [where pid = "''p1''" and uid = "''u1''"] pre by blast
  from absent malformed other own fetch show ?thesis by blast
qed

text \<open>
  Claim C10. Liking or unliking with a post identifier that is malformed or that no post
  has answers 500 with the text of the catch-all, not 404 as fetching that identifier
  does, and leaves the store unchanged.
\<close>

theorem like_unlike_absent_post_500:
  assumes "\<not> castable pid \<or> ps pid = None"
  shows "likePost castable ps uid pid = (Response 500 (Send ''Server Error''), ps) \<and>
         unlikePost castable ps uid pid = (Response 500 (Send ''Server Error''), ps) \<and>
         status (getPost castable ps pid) = 404"
  using assms
  by (auto simp: likePost_def unlikePost_def getPost_def findById_def server_error_def)

theorem like_unlike_absent_post_500_witness:
  "(\<not> ex_castable ''malformed'' \<and> ex_posts ''p9'' = None) \<and>
   likePost ex_castable ex_posts ''u1'' ''malformed'' =
     (Response 500 (Send ''Server Error''), ex_posts) \<and>
   unlikePost ex_castable ex_posts ''u1'' ''malformed'' =
     (Response 500 (Send ''Server Error''), ex_posts) \<and>
   likePost ex_castable ex_posts ''u1'' ''p9'' = (Response 500 (Send ''Server Error''), ex_posts) \<and>
   unlikePost ex_castable ex_posts ''u1'' ''p9'' = (Response 500 (Send ''Server Error''), ex_posts)"
proof -
  have pre: "\<not> ex_castable ''malformed''" "ex_posts ''p9'' = None"
    by (simp_all add: ex_castable_def ex_posts_def)
  from like_unlike_absent_post_500 [of ex_castable "''malformed''" ex_posts "''u1''"]
    like_unlike_absent_post_500 [of ex_castable "''p9''" ex_posts "''u1''"] pre
  show ?thesis by simp
qed

subsection \<open>Credential verifier\<close>

text \<open>
  Claim C4, as stated, fails for a header that is sent with an empty value: the header is
  present and its token does not verify, yet the answer is the one for a missing token,
  because the guard tests the header's value for falsiness.
\<close>

theorem auth_empty_header_counterexample:
  "x_auth_token (ex_request (Some [])) = Some [] \<and> ex_verify [] = None \<and>
   auth ex_verify (ex_request (Some [])) =
     Rejected (Response 401 (Msg ''No token, authorization denied'')) \<and>
   auth ex_verify (ex_request (Some [])) \<noteq> Rejected (Response 401 (Msg ''Token is not valid''))"
  by (simp add: auth_def ex_request_def ex_verify_def truthy_def)

text \<open>
  Claim C4, amended. For every request to a private route: when the token header is
  missing or empty the verifier answers 401 with the message "No token, authorization
  denied"; when it is present, not empty and fails verification the verifier answers 401
  with the message "Token is not valid"; whenever the verifier rejects, the status is 401
  (never 500, never a success), the handler does not run and the state is unchanged; when
  the token verifies, the user of the decoded payload is attached to the request and the
  handler runs on that request.
\<close>

theorem auth_verifier_spec:
  "(x_auth_token req = None \<or> x_auth_token req = Some [] \<longrightarrow>
      auth verify req = Rejected (Response 401 (Msg ''No token, authorization denied''))) \<and>
   (\<forall>t. x_auth_token req = Some t \<and> t \<noteq> [] \<and> verify t = None \<longrightarrow>
      auth verify req = Rejected (Response 401 (Msg ''Token is not valid''))) \<and>
   (\<forall>t d. x_auth_token req = Some t \<and> t \<noteq> [] \<and> verify t = Some d \<longrightarrow>
      auth verify req = Next (req\<lparr>req_user := Some (payload_user d)\<rparr>) \<and>
      (\<forall>handler st. protected verify handler req st =
         handler (req\<lparr>req_user := Some (payload_user d)\<rparr>) st)) \<and>
   (\<forall>r. auth verify req = Rejected r \<longrightarrow>
      status r = 401 \<and> (\<forall>handler st. protected verify handler req st = (r, st)))"
  by (auto simp: auth_def protected_def truthy_def to_str_def Let_def
      split: option.splits if_splits)

theorem auth_verifier_spec_witness:
  "auth ex_verify (ex_request None) =
     Rejected (Response 401 (Msg ''No token, authorization denied'')) \<and>
   auth ex_verify (ex_request (Some [])) =
     Rejected (Response 401 (Msg ''No token, authorization denied'')) \<and>
   auth ex_verify (ex_request (Some ''forged'')) =
     Rejected (Response 401 (Msg ''Token is not valid'')) \<and>
   auth ex_verify (ex_request (Some ''good'')) =
     Next \<lparr>x_auth_token = Some ''good'', req_user = Some \<lparr>jwt_id = ''u1''\<rparr>\<rparr> \<and>
   protected ex_verify (\<lambda>r st. (Response 200 (Msg ''ran''), Suc st))
     (ex_request (Some ''forged'')) (0::nat) = (Response 401 (Msg ''Token is not valid''), 0)"
proof -
  have v: "ex_verify ''forged'' = None"
    "ex_verify ''good'' = Some \<lparr>payload_user = \<lparr>jwt_id = ''u1''\<rparr>\<rparr>"
    by (simp_all add: ex_verify_def)
  have h: "x_auth_token (ex_request header) = header" for header
    by (simp add: ex_request_def)
  note spec = auth_verifier_spec [where verify = ex_verify]
  note no_token = spec [THEN conjunct1, rule_format]
  note invalid = spec [THEN conjunct2, THEN conjunct1, rule_format]
  note valid = spec [THEN conjunct2, THEN conjunct2, THEN conjunct1, rule_format]
  note rejected = spec [THEN conjunct2, THEN conjunct2, THEN conjunct2, rule_format]
  have missing: "auth ex_verify (ex_request None) =
      Rejected (Response 401 (Msg ''No token, authorization denied''))"
    by (rule no_token) (simp add: h)
  have empty: "auth ex_verify (ex_request (Some [])) =
      Rejected (Response 401 (Msg ''No token, authorization denied''))"
    by (rule no_token) (simp add: h)
  have forged: "auth ex_verify (ex_request (Some ''forged'')) =
      Rejected (Response 401 (Msg ''Token is not valid''))"
    by (rule invalid [where t = "''forged''"]) (simp add: h v)
  have "auth ex_verify (ex_request (Some ''good'')) =
      Next ((ex_request (Some ''good''))
        \<lparr>req_user := Some (payload_user \<lparr>payload_user = \<lparr>jwt_id = ''u1''\<rparr>\<rparr>)\<rparr>)"
    by (rule valid [where t = "''good''", THEN conjunct1]) (simp add: h v)
  then have good: "auth ex_verify (ex_request (Some ''good'')) =
      Next \<lparr>x_auth_token = Some ''good'', req_user = Some \<lparr>jwt_id = ''u1''\<rparr>\<rparr>"
    by (simp add: ex_request_def)
  have blocked: "protected ex_verify (\<lambda>r st. (Response 200 (Msg ''ran''), Suc st))
      (ex_request (Some ''forged'')) (0::nat) = (Response 401 (Msg ''Token is not valid''), 0)"
    by (rule rejected [OF forged, THEN conjunct2, rule_format])
  from missing empty forged good blocked show ?thesis
    by (intro conjI)
qed

subsection \<open>User directory\<close>

lemma find_append_new:
  "find P xs = None \<Longrightarrow> P x \<Longrightarrow> find P (xs @ [x]) = Some x"
  by (induction xs) (auto split: if_splits)

text \<open>
  Claim C9. For a body that passes validation, registration answers 400 and leaves the
  users unchanged when a user with the email exists; otherwise it stores the new user and
  answers with the token signed for the payload \<open>{user: {id}}\<close> of the new user with
  an expiry of 100 hours, which is 360000 seconds, and registering the same email again
  on the resulting store answers 400.
\<close>

theorem register_spec:
  assumes "validate_register isEmail b = []"
  shows
    "(\<forall>u. find (\<lambda>u. user_email u = to_str (body_email b)) us = Some u \<longrightarrow>
        register isEmail gravatar salt bhash sign us new_id b =
          (Response 400 (Errors [''User already exists'']), us)) \<and>
     (\<forall>token. find (\<lambda>u. user_email u = to_str (body_email b)) us = None \<and>
        sign \<lparr>payload_user = \<lparr>jwt_id = new_id\<rparr>\<rparr> (100 * 60 * 60) = Some token \<longrightarrow>
        register isEmail gravatar salt bhash sign us new_id b =
          (Response 200 (Json (JToken token)),
           us @ [\<lparr>user_id = new_id, user_name = to_str (body_name b),
                   user_email = to_str (body_email b),
                   user_avatar = gravatar (to_str (body_email b)),
                   user_password = bhash (to_str (body_password b)) salt\<rparr>]) \<and>
        (\<forall>b' salt' new_id'. validate_register isEmail b' = [] \<and> body_email b' = body_email b \<longrightarrow>
           register isEmail gravatar salt' bhash sign
             (snd (register isEmail gravatar salt bhash sign us new_id b)) new_id' b' =
             (Response 400 (Errors [''User already exists'']),
              snd (register isEmail gravatar salt bhash sign us new_id b))))"
proof -
  have dup: "register isEmail gravatar salt bhash sign us new_id b =
      (Response 400 (Errors [''User already exists'']), us)"
    if "find (\<lambda>u. user_email u = to_str (body_email b)) us = Some u" for u
    using that assms by (simp add: register_def Let_def)
  have fresh: "register isEmail gravatar salt bhash sign us new_id b =
      (Response 200 (Json (JToken token)),
       us @ [\<lparr>user_id = new_id, user_name = to_str (body_name b),
               user_email = to_str (body_email b),
               user_avatar = gravatar (to_str (body_email b)),
               user_password = bhash (to_str (body_password b)) salt\<rparr>])"
    if "find (\<lambda>u. user_email u = to_str (body_email b)) us = None"
      and "sign \<lparr>payload_user = \<lparr>jwt_id = new_id\<rparr>\<rparr> (100 * 60 * 60) = Some token" for token
    using that assms by (simp add: register_def Let_def)
  have again: "register isEmail gravatar salt' bhash sign
       (snd (register isEmail gravatar salt bhash sign us new_id b)) new_id' b' =
      (Response 400 (Errors [''User already exists'']),
       snd (register isEmail gravatar salt bhash sign us new_id b))"
    if none: "find (\<lambda>u. user_email u = to_str (body_email b)) us = None"
      and tok: "sign \<lparr>payload_user = \<lparr>jwt_id = new_id\<rparr>\<rparr> (100 * 60 * 60) = Some token"
      and valid: "validate_register isEmail b' = []" and same: "body_email b' = body_email b"
    for token b' salt' new_id'
  proof -
    let ?u = "\<lparr>user_id = new_id, user_name = to_str (body_name b),
               user_email = to_str (body_email b),
               user_avatar = gravatar (to_str (body_email b)),
               user_password = bhash (to_str (body_password b)) salt\<rparr>"
    have "find (\<lambda>u. user_email u = to_str (body_email b')) (us @ [?u]) = Some ?u"
      using none same by (intro find_append_new) simp_all
    with fresh [OF none tok] valid show ?thesis
      by (simp add: register_def Let_def)
  qed
  from dup fresh again show ?thesis by blast
qed


theorem register_spec_witness:
  "validate_register ex_isEmail ex_register_body = [] \<and>
   register ex_isEmail ex_gravatar ''salt'' ex_bhash ex_sign [] ''u1'' ex_register_body =
     (Response 200 (Json (JToken ''u1.100h'')), [ex_user]) \<and>
   register ex_isEmail ex_gravatar ''pepper'' ex_bhash ex_sign
     (snd (register ex_isEmail ex_gravatar ''salt'' ex_bhash ex_sign [] ''u1'' ex_register_body))
     ''u2'' ex_register_body =
     (Response 400 (Errors [''User already exists'']),
      snd (register ex_isEmail ex_gravatar ''salt'' ex_bhash ex_sign [] ''u1'' ex_register_body)) \<and>
   register ex_isEmail ex_gravatar ''pepper'' ex_bhash ex_sign [ex_user] ''u2'' ex_register_body =
     (Response 400 (Errors [''User already exists'']), [ex_user])"
proof -
  have valid: "validate_register ex_isEmail ex_register_body = []"
    by (simp add: validate_register_def ex_register_body_def ex_isEmail_def valid_email_def
        to_str_def)
  have none: "find (\<lambda>u. user_email u = to_str (body_email ex_register_body)) [] = None"
    by simp
  have tok: "ex_sign \<lparr>payload_user = \<lparr>jwt_id = ''u1''\<rparr>\<rparr> (100 * 60 * 60) = Some ''u1.100h''"
    by (simp add: ex_sign_def)
  have some: "find (\<lambda>u. user_email u = to_str (body_email ex_register_body)) [ex_user] =
      Some ex_user"
    by (simp add: ex_user_def ex_register_body_def to_str_def)
  note spec = register_spec [OF valid, where gravatar = ex_gravatar and bhash = ex_bhash
      and sign = ex_sign]
  note fresh = spec [where us = "[]" and new_id = "''u1''" and salt = "''salt''",
      THEN conjunct2, rule_format, OF conjI, OF none tok]
  have first: "register ex_isEmail ex_gravatar ''salt'' ex_bhash ex_sign [] ''u1''
      ex_register_body = (Response 200 (Json (JToken ''u1.100h'')), [ex_user])"
    using fresh [THEN conjunct1]
    by (simp add: ex_user_def ex_register_body_def to_str_def ex_gravatar_def ex_bhash_def)
  have second: "register ex_isEmail ex_gravatar ''pepper'' ex_bhash ex_sign
     (snd (register ex_isEmail ex_gravatar ''salt'' ex_bhash ex_sign [] ''u1'' ex_register_body))
     ''u2'' ex_register_body =
     (Response 400 (Errors [''User already exists'']),
      snd (register ex_isEmail ex_gravatar ''salt'' ex_bhash ex_sign [] ''u1'' ex_register_body))"
    by (rule fresh [THEN conjunct2, rule_format]) (simp add: valid)
  have dup: "register ex_isEmail ex_gravatar ''pepper'' ex_bhash ex_sign [ex_user] ''u2''
      ex_register_body = (Response 400 (Errors [''User already exists'']), [ex_user])"
    by (rule spec [where us = "[ex_user]", THEN conjunct1, rule_format, OF some])
  from valid first second dup show ?thesis
    by (intro conjI)
qed

text \<open>
  Claim C5. For a body that passes validation, login answers 400 with one and the same
  body when no user has the email and when the password does not match the stored hash,
  so the answer does not tell the two causes apart; when both checks pass it answers with
  the token signed for the payload \<open>{user: {id}}\<close> of the user with the expiry of
  registration, which is how registration builds its token.
\<close>

theorem authenticate_spec:
  assumes "validate_login isEmail b = []"
  shows
    "(find (\<lambda>u. user_email u = to_str (login_email b)) us = None \<longrightarrow>
        authenticate isEmail bcompare sign us b =
          Response 400 (Errors [''Invalid Credentials''])) \<and>
     (\<forall>u. find (\<lambda>u. user_email u = to_str (login_email b)) us = Some u \<and>
          \<not> bcompare (to_str (login_password b)) (user_password u) \<longrightarrow>
        authenticate isEmail bcompare sign us b =
          Response 400 (Errors [''Invalid Credentials''])) \<and>
     (\<forall>u token. find (\<lambda>u. user_email u = to_str (login_email b)) us = Some u \<and>
          bcompare (to_str (login_password b)) (user_password u) \<and>
          sign \<lparr>payload_user = \<lparr>jwt_id = user_id u\<rparr>\<rparr> 360000 = Some token \<longrightarrow>
        authenticate isEmail bcompare sign us b = Response 200 (Json (JToken token))) \<and>
     (\<forall>rb gravatar salt bhash new_id token.
          validate_register isEmail rb = [] \<and>
          find (\<lambda>u. user_email u = to_str (body_email rb)) us = None \<and>
          sign \<lparr>payload_user = \<lparr>jwt_id = new_id\<rparr>\<rparr> 360000 = Some token \<longrightarrow>
        fst (register isEmail gravatar salt bhash sign us new_id rb) =
          Response 200 (Json (JToken token)))"
  using assms by (auto simp: authenticate_def register_def Let_def)

theorem authenticate_spec_witness:
  "validate_login ex_isEmail (ex_login_body ''bob@x.io'' ''secret1'') = [] \<and>
   authenticate ex_isEmail ex_bcompare ex_sign [ex_user] (ex_login_body ''bob@x.io'' ''secret1'') =
     Response 400 (Errors [''Invalid Credentials'']) \<and>
   authenticate ex_isEmail ex_bcompare ex_sign [ex_user] (ex_login_body ''ann@x.io'' ''guess'') =
     Response 400 (Errors [''Invalid Credentials'']) \<and>
   authenticate ex_isEmail ex_bcompare ex_sign [ex_user] (ex_login_body ''ann@x.io'' ''secret1'') =
     Response 200 (Json (JToken ''u1.100h'')) \<and>
   fst (register ex_isEmail ex_gravatar ''salt'' ex_bhash ex_sign [] ''u1'' ex_register_body) =
     Response 200 (Json (JToken ''u1.100h''))"
proof -
  have valid: "validate_login ex_isEmail (ex_login_body ''bob@x.io'' pw) = []"
    "validate_login ex_isEmail (ex_login_body ''ann@x.io'' pw) = []" for pw
    by (simp_all add: validate_login_def ex_login_body_def ex_isEmail_def valid_email_def)
  have rvalid: "validate_register ex_isEmail ex_register_body = []"
    by (simp add: validate_register_def ex_register_body_def ex_isEmail_def valid_email_def
        to_str_def)
  have look: "find (\<lambda>u. user_email u = to_str (login_email (ex_login_body ''bob@x.io'' pw)))
        [ex_user] = None"
    "find (\<lambda>u. user_email u = to_str (login_email (ex_login_body ''ann@x.io'' pw)))
        [ex_user] = Some ex_user" for pw
    by (simp_all add: ex_login_body_def ex_user_def to_str_def)
  have pw: "\<not> ex_bcompare (to_str (login_password (ex_login_body ''ann@x.io'' ''guess'')))
        (user_password ex_user)"
    "ex_bcompare (to_str (login_password (ex_login_body ''ann@x.io'' ''secret1'')))
        (user_password ex_user)"
    by (simp_all add: ex_bcompare_def ex_login_body_def ex_user_def to_str_def)
  have tok: "ex_sign \<lparr>payload_user = \<lparr>jwt_id = user_id ex_user\<rparr>\<rparr> 360000 = Some ''u1.100h''"
    "ex_sign \<lparr>payload_user = \<lparr>jwt_id = ''u1''\<rparr>\<rparr> 360000 = Some ''u1.100h''"
    by (simp_all add: ex_sign_def ex_user_def)
  note spec = authenticate_spec [where isEmail = ex_isEmail and bcompare = ex_bcompare
      and sign = ex_sign and us = "[ex_user]"]
  have unknown: "authenticate ex_isEmail ex_bcompare ex_sign [ex_user]
      (ex_login_body ''bob@x.io'' ''secret1'') = Response 400 (Errors [''Invalid Credentials''])"
    by (rule spec [OF valid(1), THEN conjunct1, rule_format, OF look(1)])
  have wrong: "authenticate ex_isEmail ex_bcompare ex_sign [ex_user]
      (ex_login_body ''ann@x.io'' ''guess'') = Response 400 (Errors [''Invalid Credentials''])"
    by (rule spec [OF valid(2), THEN conjunct2, THEN conjunct1, rule_format, OF conjI,
          OF look(2) pw(1)])
  have right: "authenticate ex_isEmail ex_bcompare ex_sign [ex_user]
      (ex_login_body ''ann@x.io'' ''secret1'') = Response 200 (Json (JToken ''u1.100h''))"
    by (rule spec [OF valid(2), THEN conjunct2, THEN conjunct2, THEN conjunct1, rule_format,
          OF conjI, OF look(2) conjI, OF pw(2) tok(1)])
  have reg: "fst (register ex_isEmail ex_gravatar ''salt'' ex_bhash ex_sign [] ''u1''
      ex_register_body) = Response 200 (Json (JToken ''u1.100h''))"
    using rvalid tok(2) by (simp add: register_def Let_def)
  from valid(1) unknown wrong right reg show ?thesis
    by (intro conjI)
qed

subsection \<open>Splitting and trimming\<close>

lemma split_on_ne: "split_on sep s \<noteq> []"
  by (induction s) (auto split: list.splits)

lemma join_split: "join_with sep (split_on sep s) = s"
proof (induction s)
  case Nil
  then show ?case by simp
next
  case (Cons c cs)
  show ?case
  proof (cases "split_on sep cs")
    case Nil
    with split_on_ne show ?thesis by blast
  next
    case (Cons seg segs)
    with Cons.IH show ?thesis
      by (cases segs) auto
  qed
qed

lemma split_on_no_sep: "seg \<in> set (split_on sep s) \<Longrightarrow> sep \<notin> set seg"
  by (induction s arbitrary: seg) (auto split: if_splits list.splits)

lemma length_split_on: "length (split_on sep s) = Suc (length (filter (\<lambda>c. c = sep) s))"
  by (induction s) (auto split: list.splits simp: split_on_ne)

lemma trim_decomp:
  "\<exists>l r. s = l @ trim s @ r \<and> (\<forall>c\<in>set l. is_space c) \<and> (\<forall>c\<in>set r. is_space c)"
proof -
  let ?l = "takeWhile is_space s"
  let ?m = "dropWhile is_space s"
  let ?r = "rev (takeWhile is_space (rev ?m))"
  have "?m = trim s @ ?r"
    unfolding trim_def
    by (metis rev_append rev_rev_ident takeWhile_dropWhile_id)
  then have "s = ?l @ trim s @ ?r"
    by (metis takeWhile_dropWhile_id)
  moreover have "\<forall>c\<in>set ?l. is_space c"
    by (auto dest: set_takeWhileD)
  moreover have "\<forall>c\<in>set ?r. is_space c"
    by (auto dest: set_takeWhileD)
  ultimately show ?thesis by blast
qed

lemma trim_ends:
  "trim s \<noteq> [] \<Longrightarrow> \<not> is_space (hd (trim s)) \<and> \<not> is_space (last (trim s))"
proof -
  assume ne: "trim s \<noteq> []"
  let ?m = "dropWhile is_space s"
  let ?t = "dropWhile is_space (rev ?m)"
  have t: "trim s = rev ?t" by (simp add: trim_def)
  with ne have tne: "?t \<noteq> []" by simp
  then have "\<not> is_space (hd ?t)" by (rule hd_dropWhile)
  with tne t have last: "\<not> is_space (last (trim s))" by (simp add: last_rev)
  have mne: "?m \<noteq> []"
  proof
    assume e: "?m = []"
    have "?t = []" unfolding e by simp
    with tne show False by contradiction
  qed
  then have hm: "\<not> is_space (hd ?m)" by (rule hd_dropWhile)
  have "hd (trim s) = last ?t" using tne t by (simp add: hd_rev)
  also have "\<dots> = hd ?m"
  proof -
    obtain x xs where m: "?m = x # xs" using mne by (cases ?m) auto
    with hm have nx: "\<not> is_space x" by simp
    have "last (dropWhile is_space (rev xs @ [x])) = x"
      using nx by (simp add: dropWhile_append3)
    with m show ?thesis by simp
  qed
  finally show ?thesis using hm last by simp
qed

subsection \<open>Profile service\<close>

lemma find_update_first:
  "find P xs = Some x \<Longrightarrow> P (f x) \<Longrightarrow> find P (update_first P f xs) = Some (f x)"
  by (induction xs) (auto split: if_splits)

lemma update_first_found:
  "find P xs = Some x \<Longrightarrow> update_first P f xs = update_first P (\<lambda>_. f x) xs"
  by (induction xs) (auto split: if_splits)

text \<open>
  Claim C8. For a request that passes validation and whose body carries a skills string
  that is not empty, and a status unless the caller has a profile, the profile that the
  upsert answers with and stores, updated or new, has as its skills the skills string
  split at the commas with each segment trimmed, in order. Splitting is exact: joining
  the segments with commas gives the string back, no segment holds a comma, and there is
  one segment more than there are commas. Trimming only takes white space off the two
  ends: a segment is white space, then its trimmed form, then white space, and a trimmed
  form that is not empty neither starts nor ends with white space. The string
  \<open>a, b ,c\<close> gives the list \<open>a\<close>, \<open>b\<close>, \<open>c\<close>.
\<close>

theorem skills_normalized:
  assumes "validate_profile elsewhere b = []" and "truthy (b_skills b)"
    and "truthy (b_status b) \<or> find (\<lambda>p. prof_user p = uid) ps \<noteq> None"
  shows
    "(\<exists>p. fst (upsertProfile ps uid elsewhere b) = Response 200 (Json (JProfile p)) \<and>
          find (\<lambda>p. prof_user p = uid) (snd (upsertProfile ps uid elsewhere b)) = Some p \<and>
          prof_skills p = map trim (split_on CHR '','' (to_str (b_skills b)))) \<and>
     join_with CHR '','' (split_on CHR '','' s) = s \<and>
     (\<forall>seg\<in>set (split_on CHR '','' s). CHR '','' \<notin> set seg) \<and>
     length (map trim (split_on CHR '','' s)) = Suc (length (filter (\<lambda>c. c = CHR '','') s)) \<and>
     (\<forall>seg. \<exists>l r. seg = l @ trim seg @ r \<and> (\<forall>c\<in>set l. is_space c) \<and> (\<forall>c\<in>set r. is_space c)) \<and>
     (\<forall>seg. trim seg \<noteq> [] \<longrightarrow> \<not> is_space (hd (trim seg)) \<and> \<not> is_space (last (trim seg))) \<and>
     map trim (split_on CHR '','' ''a, b ,c'') = [''a'', ''b'', ''c'']"
proof -
  note sk = assms(2)
  let ?pf = "build_profileFields uid b"
  let ?P = "\<lambda>p. prof_user p = uid"
  have pf: "pf_skills ?pf = Some (map trim (split_on CHR '','' (to_str (b_skills b))))"
    "pf_user ?pf = uid"
    using sk by (simp_all add: build_profileFields_def)
  have stored: "\<exists>p. fst (upsertProfile ps uid elsewhere b) = Response 200 (Json (JProfile p)) \<and>
          find ?P (snd (upsertProfile ps uid elsewhere b)) = Some p \<and>
          prof_skills p = map trim (split_on CHR '','' (to_str (b_skills b)))"
  proof (cases "find ?P ps")
    case None
    with assms(3) have st: "truthy (b_status b)" by simp
    then have status: "prof_status (new_profile ?pf) \<noteq> None"
      by (auto simp: new_profile_def build_profileFields_def truthy_def split: option.splits)
    have "find ?P (ps @ [new_profile ?pf]) = Some (new_profile ?pf)"
      using None pf by (intro find_append_new) (simp_all add: new_profile_def)
    moreover have "prof_skills (new_profile ?pf) =
        map trim (split_on CHR '','' (to_str (b_skills b)))"
      using pf by (simp add: new_profile_def)
    ultimately show ?thesis
      using None assms(1) status by (simp add: upsertProfile_def Let_def)
  next
    case (Some old)
    have "find ?P (update_first ?P (apply_set ?pf) ps) = Some (apply_set ?pf old)"
      using Some pf by (intro find_update_first) (simp_all add: apply_set_def)
    with Some assms(1) pf show ?thesis
      by (simp add: upsertProfile_def Let_def apply_set_def)
  qed
  have example: "map trim (split_on CHR '','' ''a, b ,c'') = [''a'', ''b'', ''c'']"
    by (simp add: trim_def is_space_def)
  from stored example show ?thesis
    using join_split split_on_no_sep length_split_on trim_decomp trim_ends
    by (simp only: length_map) blast
qed

theorem skills_normalized_witness:
  "validate_profile ex_body_only ex_profile_body = [] \<and>
   b_skills ex_profile_body = Some ''a, b ,c'' \<and>
   map prof_skills (snd (upsertProfile [ex_profile] ''u1'' ex_body_only ex_profile_body)) =
     [[''a'', ''b'', ''c'']] \<and>
   map prof_skills (snd (upsertProfile [] ''u1'' ex_body_only ex_profile_body)) =
     [[''a'', ''b'', ''c'']] \<and>
   split_on CHR '','' ''a, b ,c'' = [''a'', '' b '', ''c'']"
proof -
  have valid: "validate_profile ex_body_only ex_profile_body = []"
    by (simp add: validate_profile_def check_not_empty_def ex_body_only_def ex_profile_body_def)
  have sk: "b_skills ex_profile_body = Some ''a, b ,c''"
    by (simp add: ex_profile_body_def)
  have tr: "truthy (b_skills ex_profile_body)" "truthy (b_status ex_profile_body)"
    by (simp_all add: ex_profile_body_def truthy_def)
  have segs: "split_on CHR '','' ''a, b ,c'' = [''a'', '' b '', ''c'']"
    by simp
  have existing:
    "map prof_skills (snd (upsertProfile [ex_profile] ''u1'' ex_body_only ex_profile_body)) =
      [[''a'', ''b'', ''c'']]"
  proof -
    from skills_normalized [OF valid tr(1) disjI1, OF tr(2),
        where uid = "''u1''" and ps = "[ex_profile]", THEN conjunct1]
    obtain p where
      p: "find (\<lambda>p. prof_user p = ''u1'')
            (snd (upsertProfile [ex_profile] ''u1'' ex_body_only ex_profile_body)) = Some p"
        "prof_skills p = map trim (split_on CHR '','' (to_str (b_skills ex_profile_body)))"
      by blast
    have "snd (upsertProfile [ex_profile] ''u1'' ex_body_only ex_profile_body) =
        [apply_set (build_profileFields ''u1'' ex_profile_body) ex_profile]"
      using valid by (simp add: upsertProfile_def Let_def ex_profile_def)
    with p show ?thesis
      by (simp add: sk to_str_def trim_def is_space_def split: if_splits)
  qed
  have created:
    "map prof_skills (snd (upsertProfile [] ''u1'' ex_body_only ex_profile_body)) =
      [[''a'', ''b'', ''c'']]"
  proof -
    from skills_normalized [OF valid tr(1) disjI1, OF tr(2),
        where uid = "''u1''" and ps = "[]", THEN conjunct1]
    obtain p where
      p: "find (\<lambda>p. prof_user p = ''u1'')
            (snd (upsertProfile [] ''u1'' ex_body_only ex_profile_body)) = Some p"
        "prof_skills p = map trim (split_on CHR '','' (to_str (b_skills ex_profile_body)))"
      by blast
    have "prof_status (new_profile (build_profileFields ''u1'' ex_profile_body)) \<noteq> None"
      by (simp add: new_profile_def build_profileFields_def ex_profile_body_def truthy_def)
    then have "snd (upsertProfile [] ''u1'' ex_body_only ex_profile_body) =
        [new_profile (build_profileFields ''u1'' ex_profile_body)]"
      using valid by (simp add: upsertProfile_def Let_def)
    with p show ?thesis
      by (simp add: sk to_str_def trim_def is_space_def split: if_splits)
  qed
  from valid sk existing created segs show ?thesis
    by (intro conjI)
qed

text \<open>
  Claim C3, as stated, fails on the social links: the update always carries the key
  \<^verbatim>\<open>social\<close>, built from the input alone, so a link of the existing profile that the
  input omits is dropped, not kept. It also fails for a field that is present with the
  empty string, which is falsy and does not overwrite.
\<close>

theorem upsertProfile_social_counterexample:
  "validate_profile ex_body_only ex_profile_body = [] \<and>
   find (\<lambda>p. prof_user p = ''u1'') [ex_profile] = Some ex_profile \<and>
   b_youtube ex_profile_body = None \<and>
   youtube (prof_social ex_profile) = Some ''yt/ann'' \<and>
   map prof_social (snd (upsertProfile [ex_profile] ''u1'' ex_body_only ex_profile_body)) =
     [\<lparr>youtube = None, twitter = Some ''tw/ann'', facebook = None, linkedin = None,
       instagram = None\<rparr>] \<and>
   b_company ex_profile_body = Some [] \<and>
   map prof_company (snd (upsertProfile [ex_profile] ''u1'' ex_body_only ex_profile_body)) =
     [Some ''Acme'']"
  by (simp add: upsertProfile_def validate_profile_def check_not_empty_def ex_body_only_def
      build_profileFields_def apply_set_def ex_profile_def ex_profile_body_def to_str_def
      truthy_def Let_def)

text \<open>
  Claim C3, amended. For an existing profile and a request that passes validation, the
  upsert answers with and stores, in place of the existing profile and with the other
  profiles untouched, a profile in which each of company, website, location, bio, status
  and github username is the value of the body when that is present and not empty and
  the previous value when the body omits it or holds the empty string; the skills are the
  normalized skills string of the body when that is present and not empty and the
  previous skills otherwise; the experience and education lists and the owner are the
  previous ones; and the social links as a whole are replaced by the links of the body
  that are present and not empty, the others being absent.
\<close>

theorem upsertProfile_existing:
  assumes "validate_profile elsewhere b = []"
    and "find (\<lambda>p. prof_user p = uid) ps = Some old"
  shows
    "\<exists>new. upsertProfile ps uid elsewhere b =
        (Response 200 (Json (JProfile new)),
         update_first (\<lambda>p. prof_user p = uid) (\<lambda>_. new) ps) \<and>
      prof_company new = (if truthy (b_company b) then b_company b else prof_company old) \<and>
      prof_website new = (if truthy (b_website b) then b_website b else prof_website old) \<and>
      prof_location new = (if truthy (b_location b) then b_location b else prof_location old) \<and>
      prof_bio new = (if truthy (b_bio b) then b_bio b else prof_bio old) \<and>
      prof_status new = (if truthy (b_status b) then b_status b else prof_status old) \<and>
      prof_githubusername new =
        (if truthy (b_githubusername b) then b_githubusername b else prof_githubusername old) \<and>
      prof_skills new =
        (if truthy (b_skills b) then map trim (split_on CHR '','' (to_str (b_skills b)))
         else prof_skills old) \<and>
      prof_social new =
        \<lparr>youtube = (if truthy (b_youtube b) then b_youtube b else None),
         twitter = (if truthy (b_twitter b) then b_twitter b else None),
         facebook = (if truthy (b_facebook b) then b_facebook b else None),
         linkedin = (if truthy (b_linkedin b) then b_linkedin b else None),
         instagram = (if truthy (b_instagram b) then b_instagram b else None)\<rparr> \<and>
      prof_user new = uid \<and>
      prof_experience new = prof_experience old \<and>
      prof_education new = prof_education old"
proof -
  let ?pf = "build_profileFields uid b"
  let ?new = "apply_set ?pf old"
  have run: "upsertProfile ps uid elsewhere b =
      (Response 200 (Json (JProfile ?new)), update_first (\<lambda>p. prof_user p = uid) (\<lambda>_. ?new) ps)"
    using assms update_first_found [OF assms(2), of "apply_set ?pf"]
    by (simp add: upsertProfile_def Let_def)
  have fields:
    "prof_company ?new = (if truthy (b_company b) then b_company b else prof_company old)"
    "prof_website ?new = (if truthy (b_website b) then b_website b else prof_website old)"
    "prof_location ?new = (if truthy (b_location b) then b_location b else prof_location old)"
    "prof_bio ?new = (if truthy (b_bio b) then b_bio b else prof_bio old)"
    "prof_status ?new = (if truthy (b_status b) then b_status b else prof_status old)"
    "prof_githubusername ?new =
        (if truthy (b_githubusername b) then b_githubusername b else prof_githubusername old)"
    by (simp_all add: apply_set_def build_profileFields_def truthy_def split: option.splits)
  have skills: "prof_skills ?new =
        (if truthy (b_skills b) then map trim (split_on CHR '','' (to_str (b_skills b)))
         else prof_skills old)"
    by (simp add: apply_set_def build_profileFields_def)
  have rest: "prof_social ?new =
        \<lparr>youtube = (if truthy (b_youtube b) then b_youtube b else None),
         twitter = (if truthy (b_twitter b) then b_twitter b else None),
         facebook = (if truthy (b_facebook b) then b_facebook b else None),
         linkedin = (if truthy (b_linkedin b) then b_linkedin b else None),
         instagram = (if truthy (b_instagram b) then b_instagram b else None)\<rparr>"
    "prof_user ?new = uid" "prof_experience ?new = prof_experience old"
    "prof_education ?new = prof_education old"
    by (simp_all add: apply_set_def build_profileFields_def)
  show ?thesis
    by (rule exI [of _ ?new]) (intro conjI run fields skills rest)
qed

text \<open>
  The first request of the example carries a status and skills in its body, which
  overwrite. The second carries them in the query string only, where the validation
  finds them and the handler does not: the status and the skills of the profile stay and
  the company of the body is set.
\<close>

theorem upsertProfile_existing_witness:
  "validate_profile ex_body_only ex_profile_body = [] \<and>
   validate_profile ex_query ex_company_body = [] \<and>
   find (\<lambda>p. prof_user p = ''u1'') [ex_profile] = Some ex_profile \<and>
   upsertProfile [ex_profile] ''u1'' ex_body_only ex_profile_body =
     (Response 200 (Json (JProfile ex_profile_after)), [ex_profile_after]) \<and>
   map prof_status (snd (upsertProfile [ex_profile] ''u1'' ex_query ex_company_body)) =
     [Some ''Developer''] \<and>
   map prof_skills (snd (upsertProfile [ex_profile] ''u1'' ex_query ex_company_body)) =
     [[''html'']] \<and>
   map prof_company (snd (upsertProfile [ex_profile] ''u1'' ex_query ex_company_body)) =
     [Some ''New'']"
proof -
  have valid: "validate_profile ex_body_only ex_profile_body = []"
    by (simp add: validate_profile_def check_not_empty_def ex_body_only_def ex_profile_body_def)
  have valid_query: "validate_profile ex_query ex_company_body = []"
    by (simp add: validate_profile_def check_not_empty_def ex_query_def ex_company_body_def)
  have found: "find (\<lambda>p. prof_user p = ''u1'') [ex_profile] = Some ex_profile"
    by (simp add: ex_profile_def)
  from upsertProfile_existing [OF valid found] obtain new where
    run: "upsertProfile [ex_profile] ''u1'' ex_body_only ex_profile_body =
        (Response 200 (Json (JProfile new)),
         update_first (\<lambda>p. prof_user p = ''u1'') (\<lambda>_. new) [ex_profile])"
    and fields:
      "prof_company new =
         (if truthy (b_company ex_profile_body) then b_company ex_profile_body
          else prof_company ex_profile)"
      "prof_website new =
         (if truthy (b_website ex_profile_body) then b_website ex_profile_body
          else prof_website ex_profile)"
      "prof_location new =
         (if truthy (b_location ex_profile_body) then b_location ex_profile_body
          else prof_location ex_profile)"
      "prof_bio new =
         (if truthy (b_bio ex_profile_body) then b_bio ex_profile_body else prof_bio ex_profile)"
      "prof_status new =
         (if truthy (b_status ex_profile_body) then b_status ex_profile_body
          else prof_status ex_profile)"
      "prof_githubusername new =
         (if truthy (b_githubusername ex_profile_body) then b_githubusername ex_profile_body
          else prof_githubusername ex_profile)"
      "prof_skills new =
         (if truthy (b_skills ex_profile_body)
          then map trim (split_on CHR '','' (to_str (b_skills ex_profile_body)))
          else prof_skills ex_profile)"
      "prof_social new =
        \<lparr>youtube = (if truthy (b_youtube ex_profile_body) then b_youtube ex_profile_body else None),
         twitter = (if truthy (b_twitter ex_profile_body) then b_twitter ex_profile_body else None),
         facebook = (if truthy (b_facebook ex_profile_body) then b_facebook ex_profile_body else None),
         linkedin = (if truthy (b_linkedin ex_profile_body) then b_linkedin ex_profile_body else None),
         instagram =
           (if truthy (b_instagram ex_profile_body) then b_instagram ex_profile_body else None)\<rparr>"
      "prof_user new = ''u1''"
      "prof_experience new = prof_experience ex_profile"
      "prof_education new = prof_education ex_profile"
    by blast
  have "new = ex_profile_after"
    using fields
    by (cases new)
      (simp add: ex_profile_after_def ex_profile_def ex_profile_body_def truthy_def to_str_def
        trim_def is_space_def)
  with run have first: "upsertProfile [ex_profile] ''u1'' ex_body_only ex_profile_body =
      (Response 200 (Json (JProfile ex_profile_after)), [ex_profile_after])"
    by (simp add: ex_profile_def)
  from upsertProfile_existing [OF valid_query found] obtain kept where
    run2: "upsertProfile [ex_profile] ''u1'' ex_query ex_company_body =
        (Response 200 (Json (JProfile kept)),
         update_first (\<lambda>p. prof_user p = ''u1'') (\<lambda>_. kept) [ex_profile])"
    and kept:
      "prof_company kept =
         (if truthy (b_company ex_company_body) then b_company ex_company_body
          else prof_company ex_profile)"
      "prof_status kept =
         (if truthy (b_status ex_company_body) then b_status ex_company_body
          else prof_status ex_profile)"
      "prof_skills kept =
         (if truthy (b_skills ex_company_body)
          then map trim (split_on CHR '','' (to_str (b_skills ex_company_body)))
          else prof_skills ex_profile)"
    by blast
  have store2: "snd (upsertProfile [ex_profile] ''u1'' ex_query ex_company_body) = [kept]"
    using run2 by (simp add: ex_profile_def)
  have kept_values: "prof_company kept = Some ''New''" "prof_status kept = Some ''Developer''"
    "prof_skills kept = [''html'']"
    using kept by (simp_all add: ex_company_body_def ex_profile_def truthy_def)
  have second:
    "map prof_status (snd (upsertProfile [ex_profile] ''u1'' ex_query ex_company_body)) =
       [Some ''Developer'']"
    "map prof_skills (snd (upsertProfile [ex_profile] ''u1'' ex_query ex_company_body)) =
       [[''html'']]"
    "map prof_company (snd (upsertProfile [ex_profile] ''u1'' ex_query ex_company_body)) =
       [Some ''New'']"
    by (simp_all add: store2 kept_values)
  from valid valid_query found first second show ?thesis
    by (intro conjI)
qed

text \<open>
  Removing an entry whose identifier is not in the list: \<^verbatim>\<open>indexOf\<close> is \<open>-1\<close>, and
  splicing at \<open>-1\<close> takes the last entry out.
\<close>

lemma removeExperience_unknown_id:
  assumes "find (\<lambda>p. prof_user p = uid) ps = Some profile"
    and "eid \<notin> set (map exp_id (prof_experience profile))"
  shows "removeExperience ps uid eid =
     (Response 200 (Json (JProfile (profile\<lparr>prof_experience := butlast (prof_experience profile)\<rparr>))),
      update_first (\<lambda>p. prof_user p = uid)
        (\<lambda>_. profile\<lparr>prof_experience := butlast (prof_experience profile)\<rparr>) ps)"
  using assms(1) indexOf_notin [OF assms(2)]
  by (simp add: removeExperience_def Let_def splice_js_minus_one)

lemma removeEducation_unknown_id:
  assumes "find (\<lambda>p. prof_user p = uid) ps = Some profile"
    and "eid \<notin> set (map edu_id (prof_education profile))"
  shows "removeEducation ps uid eid =
     (Response 200 (Json (JProfile (profile\<lparr>prof_education := butlast (prof_education profile)\<rparr>))),
      update_first (\<lambda>p. prof_user p = uid)
        (\<lambda>_. profile\<lparr>prof_education := butlast (prof_education profile)\<rparr>) ps)"
  using assms(1) indexOf_notin [OF assms(2)]
  by (simp add: removeEducation_def Let_def splice_js_minus_one)

text \<open>
  Claim C2. The profile of the example has two experience entries and one education
  entry. Removing the experience \<open>e9\<close> and the education \<open>d9\<close>, identifiers that
  no entry has, does not leave the lists unchanged: the last entry of each is removed.
\<close>

theorem remove_entry_unknown_id_drops_last:
  "map exp_id (prof_experience ex_profile) = [''e2'', ''e1''] \<and>
   removeExperience [ex_profile] ''u1'' ''e9'' =
     (Response 200 (Json (JProfile (ex_profile\<lparr>prof_experience := [ex_experience_new]\<rparr>))),
      [ex_profile\<lparr>prof_experience := [ex_experience_new]\<rparr>]) \<and>
   map edu_id (prof_education ex_profile) = [''d1''] \<and>
   removeEducation [ex_profile] ''u1'' ''d9'' =
     (Response 200 (Json (JProfile (ex_profile\<lparr>prof_education := []\<rparr>))),
      [ex_profile\<lparr>prof_education := []\<rparr>])"
proof -
  have found: "find (\<lambda>p. prof_user p = ''u1'') [ex_profile] = Some ex_profile"
    by (simp add: ex_profile_def)
  have ids: "map exp_id (prof_experience ex_profile) = [''e2'', ''e1'']"
    "map edu_id (prof_education ex_profile) = [''d1'']"
    by (simp_all add: ex_profile_def ex_experience_new_def ex_experience_old_def ex_education_def)
  have lists: "prof_experience ex_profile = [ex_experience_new, ex_experience_old]"
    "prof_education ex_profile = [ex_education]"
    by (simp_all add: ex_profile_def)
  have owner: "prof_user ex_profile = ''u1''"
    by (simp add: ex_profile_def)
  have "removeExperience [ex_profile] ''u1'' ''e9'' =
     (Response 200 (Json (JProfile (ex_profile\<lparr>prof_experience := [ex_experience_new]\<rparr>))),
      [ex_profile\<lparr>prof_experience := [ex_experience_new]\<rparr>])"
    using removeExperience_unknown_id [OF found, of "''e9''"] ids lists owner by simp
  moreover have "removeEducation [ex_profile] ''u1'' ''d9'' =
     (Response 200 (Json (JProfile (ex_profile\<lparr>prof_education := []\<rparr>))),
      [ex_profile\<lparr>prof_education := []\<rparr>])"
    using removeEducation_unknown_id [OF found, of "''d9''"] ids lists owner by simp
  ultimately show ?thesis using ids by (intro conjI)
qed

end
